theory Spec2Isabelle
  imports Complex_Main
begin

section \<open>Numbers and vectors\<close>

text \<open>
  JavaScript numbers are modelled as exact reals, timestamps (\<open>Date.now()\<close>, in
  milliseconds) and scores as integers.  A \<open>THREE.Vector3\<close> is a triple of reals; only the
  vector operations the game logic calls are given.

  The source computes in IEEE doubles, so a sum of many steps differs from the exact sum
  by a rounding error many orders of magnitude below 0.001 here, and a comparison that the exact
  values meet with equality may go either way in the source.  The concrete states of
  the theorems below are chosen so that every comparison they pass through holds or
  fails by a margin far above that error.
\<close>

type_synonym vec3 = "real \<times> real \<times> real"

definition vx :: "vec3 \<Rightarrow> real" where
  "vx v = fst v"

definition vy :: "vec3 \<Rightarrow> real" where
  "vy v = fst (snd v)"

definition vz :: "vec3 \<Rightarrow> real" where
  "vz v = snd (snd v)"

definition vadd :: "vec3 \<Rightarrow> vec3 \<Rightarrow> vec3" where
  "vadd a b = (vx a + vx b, vy a + vy b, vz a + vz b)"

definition multiplyScalar :: "vec3 \<Rightarrow> real \<Rightarrow> vec3" where
  "multiplyScalar a k = (vx a * k, vy a * k, vz a * k)"

definition distanceTo :: "vec3 \<Rightarrow> vec3 \<Rightarrow> real" where
  "distanceTo a b =
     sqrt ((vx a - vx b) * (vx a - vx b) + (vy a - vy b) * (vy a - vy b)
           + (vz a - vz b) * (vz a - vz b))"

section \<open>ShootingSystem\<close>

text \<open>
  A projectile is the mesh's position together with its \<open>userData\<close>.  The camera is read
  only through its position and the image of \<open>(0, 0, -1)\<close> under its quaternion, so the
  record carries that forward vector directly.  Materials, glow meshes, the crosshair
  class and the impact light are presentation and carry no state the logic reads.
\<close>

record projectile =
  p_position :: vec3
  p_direction :: vec3
  p_createdAt :: int
  p_isActive :: bool

record camera =
  cam_position :: vec3
  cam_forward :: vec3

record shooting =
  cooldown :: int
  lastShotTime :: int
  projectileSpeed :: real
  projectileLifetime :: int
  projectiles :: "projectile list"

definition ShootingSystem_init :: shooting where
  "ShootingSystem_init =
     \<lparr>cooldown = 200, lastShotTime = 0, projectileSpeed = 0.5,
      projectileLifetime = 2000, projectiles = []\<rparr>"

text \<open>\<open>shoot()\<close>; \<open>now\<close> is the value of \<open>Date.now()\<close> at the call.\<close>

definition shoot :: "int \<Rightarrow> camera \<Rightarrow> shooting \<Rightarrow> bool \<times> shooting" where
  "shoot now cam s =
     (if now - lastShotTime s < cooldown s then (False, s)
      else
        let direction = cam_forward cam;
            start = vadd (cam_position cam) (multiplyScalar direction 0.5);
            projectile = \<lparr>p_position = (vx start, vy start - 0.2, vz start),
                          p_direction = direction, p_createdAt = now, p_isActive = True\<rparr>
        in (True, s\<lparr>lastShotTime := now, projectiles := projectiles s @ [projectile]\<rparr>))"

text \<open>
  \<open>removeProjectile(index)\<close>: \<open>this.projectiles[index]\<close> is \<open>undefined\<close> out of range and
  the method then does nothing; otherwise it splices the entry out.
\<close>

definition removeProjectile :: "nat \<Rightarrow> shooting \<Rightarrow> shooting" where
  "removeProjectile index s =
     (if index < length (projectiles s)
      then s\<lparr>projectiles := take index (projectiles s) @ drop (Suc index) (projectiles s)\<rparr>
      else s)"

definition hitRadius :: real where
  "hitRadius = 0.5"

text \<open>
  The inner loop of \<open>update\<close> over \<open>targets\<close>.  The system reads a target only through
  \<open>userData.isAlive\<close> and \<open>getWorldPosition\<close>, given here as the two readers \<open>alive\<close> and
  \<open>wpos\<close>; the result is the target at which the loop breaks, if any.
\<close>

fun find_hit :: "('t \<Rightarrow> bool) \<Rightarrow> ('t \<Rightarrow> vec3) \<Rightarrow> vec3 \<Rightarrow> 't list \<Rightarrow> 't option" where
  "find_hit alive wpos pos [] = None"
| "find_hit alive wpos pos (target # rest) =
     (if \<not> alive target then find_hit alive wpos pos rest
      else if distanceTo pos (wpos target) < hitRadius then Some target
      else find_hit alive wpos pos rest)"

text \<open>
  The outer loop \<open>for (let i = length - 1; i >= 0; i--)\<close>: the argument \<open>Suc i\<close> stands
  for the iteration at index \<open>i\<close>.  A removal at index \<open>i\<close> leaves the entries below
  \<open>i\<close> in place, so the index read is always in range when the loop starts at the
  length of the list.
\<close>

fun update_loop ::
  "int \<Rightarrow> ('t \<Rightarrow> bool) \<Rightarrow> ('t \<Rightarrow> vec3) \<Rightarrow> 't list \<Rightarrow> nat \<Rightarrow> shooting \<times> 't list
   \<Rightarrow> shooting \<times> 't list" where
  "update_loop now alive wpos targets 0 (s, hits) = (s, hits)"
| "update_loop now alive wpos targets (Suc i) (s, hits) =
     (let projectile = projectiles s ! i in
      if \<not> p_isActive projectile then update_loop now alive wpos targets i (s, hits)
      else
        let movement = multiplyScalar (p_direction projectile) (projectileSpeed s);
            moved = projectile\<lparr>p_position := vadd (p_position projectile) movement\<rparr>;
            s1 = s\<lparr>projectiles := (projectiles s)[i := moved]\<rparr>
        in if now - p_createdAt moved > projectileLifetime s1
           then update_loop now alive wpos targets i (removeProjectile i s1, hits)
           else (case find_hit alive wpos (p_position moved) targets of
                   None \<Rightarrow> update_loop now alive wpos targets i (s1, hits)
                 | Some target \<Rightarrow>
                     update_loop now alive wpos targets i
                       (removeProjectile i
                          (s1\<lparr>projectiles := (projectiles s1)[i := moved\<lparr>p_isActive := False\<rparr>]\<rparr>),
                        hits @ [target])))"

text \<open>
  \<open>update(deltaTime, targets)\<close>; \<open>now\<close> is \<open>Date.now()\<close> at the call.  The source takes
  \<open>deltaTime\<close> and never reads it.
\<close>

definition update_shots ::
  "int \<Rightarrow> real \<Rightarrow> ('t \<Rightarrow> bool) \<Rightarrow> ('t \<Rightarrow> vec3) \<Rightarrow> 't list \<Rightarrow> shooting \<Rightarrow> 't list \<times> shooting" where
  "update_shots now deltaTime alive wpos targets s =
     (case update_loop now alive wpos targets (length (projectiles s)) (s, []) of
        (s', hits) \<Rightarrow> (hits, s'))"

text \<open>\<open>clear()\<close> removes every projectile, last to first.\<close>

fun clear_loop :: "nat \<Rightarrow> shooting \<Rightarrow> shooting" where
  "clear_loop 0 s = s"
| "clear_loop (Suc i) s = clear_loop i (removeProjectile i s)"

definition clear_shots :: "shooting \<Rightarrow> shooting" where
  "clear_shots s = clear_loop (length (projectiles s)) s"

section \<open>AlienGrid\<close>

text \<open>
  An alien is a \<open>THREE.Group\<close> with its \<open>userData\<close>; the voxel meshes below it are
  presentation.  Aliens are objects shared between the grid, the list returned by
  \<open>getAliveAliens\<close> and the hit list of the shooting system, so they live in a store
  \<open>g_objs\<close> addressed by references, and \<open>this.aliens\<close> holds references.
\<close>

type_synonym ref = nat

record alien =
  a_position :: vec3
  a_rotationZ :: real
  a_visible :: bool
  a_type :: nat
  a_points :: int
  a_isAlive :: bool
  a_wiggleOffset :: real
  a_gridRow :: nat
  a_gridCol :: nat
  a_originalY :: real

text \<open>
  \<open>AlienFactory.createAlien(type, scale)\<close>: \<open>scale\<close> sizes the voxels only.  \<open>r\<close> is the
  value \<open>Math.random()\<close> returns.  The grid fields are set by \<open>spawnWave\<close> right after
  creation.
\<close>

definition createAlien :: "nat \<Rightarrow> real \<Rightarrow> alien" where
  "createAlien type r =
     \<lparr>a_position = (0, 0, 0), a_rotationZ = 0, a_visible = True, a_type = type,
      a_points = int type * 10, a_isAlive = True, a_wiggleOffset = r * pi * 2,
      a_gridRow = 0, a_gridCol = 0, a_originalY = 0\<rparr>"

record config =
  rows :: nat
  cols :: nat
  spacingX :: real
  spacingY :: real
  startX :: real
  startY :: real
  startZ :: real

text \<open>
  The repository holds two variants of the class.  Both have the fields of \<open>grid\<close>; the
  boundary-based one adds \<open>boundaryX\<close>, the cycle-counted one the travel and descent
  counters.  \<open>g_group\<close> is the position of \<open>this.group\<close>, \<open>None\<close> for \<open>null\<close>; \<open>g_next\<close> is
  the next unused reference.
\<close>

record grid =
  g_objs :: "ref \<Rightarrow> alien"
  g_next :: ref
  g_aliens :: "ref list list"
  g_direction :: real
  g_moveSpeed :: real
  g_dropDistance :: real
  g_baseSpeed :: real
  g_speedMultiplier :: real
  g_wiggleTime :: real
  g_wiggleAmount :: real
  g_group :: "vec3 option"

record grid_bnd = grid +
  boundaryX :: real

record grid_cyc = grid +
  horizontalLimit :: real
  currentHorizontalPosition :: real
  dropCount :: nat
  maxDrops :: nat

definition config_bnd :: config where
  "config_bnd = \<lparr>rows = 5, cols = 11, spacingX = 1.2, spacingY = 0.8, startX = 0,
                  startY = 3, startZ = -8\<rparr>"

definition config_cyc :: config where
  "config_cyc = \<lparr>rows = 5, cols = 11, spacingX = 2.4, spacingY = 1.6, startX = 0,
                  startY = 6, startZ = -15\<rparr>"

text \<open>The constructors; \<open>objs\<close> is the store the grid is created in.\<close>

definition AlienGrid_bnd :: "(ref \<Rightarrow> alien) \<Rightarrow> ref \<Rightarrow> grid_bnd" where
  "AlienGrid_bnd objs n =
     \<lparr>g_objs = objs, g_next = n, g_aliens = [], g_direction = 1, g_moveSpeed = 0.015,
      g_dropDistance = 0.3, g_baseSpeed = 0.015, g_speedMultiplier = 1, g_wiggleTime = 0,
      g_wiggleAmount = 0.1, g_group = None, boundaryX = 5\<rparr>"

definition AlienGrid_cyc :: "(ref \<Rightarrow> alien) \<Rightarrow> ref \<Rightarrow> grid_cyc" where
  "AlienGrid_cyc objs n =
     \<lparr>g_objs = objs, g_next = n, g_aliens = [], g_direction = -1, g_moveSpeed = 0.02,
      g_dropDistance = 1.0, g_baseSpeed = 0.02, g_speedMultiplier = 1, g_wiggleTime = 0,
      g_wiggleAmount = 0.1, g_group = None, horizontalLimit = 10,
      currentHorizontalPosition = 0, dropCount = 0, maxDrops = 10\<rparr>"

text \<open>
  \<open>getWorldPosition\<close> of an alien of the formation: the group is neither rotated nor
  scaled, so it is the group's position plus the alien's own.
\<close>

definition getWorldPosition :: "'a grid_scheme \<Rightarrow> ref \<Rightarrow> vec3" where
  "getWorldPosition g a =
     (case g_group g of
        None \<Rightarrow> a_position (g_objs g a)
      | Some gp \<Rightarrow> vadd gp (a_position (g_objs g a)))"

definition isAliveRef :: "'a grid_scheme \<Rightarrow> ref \<Rightarrow> bool" where
  "isAliveRef g a = a_isAlive (g_objs g a)"

text \<open>
  The methods below are the same text in both variants.  A nested loop over the rows
  that skips dead aliens visits \<open>filter alive (concat aliens)\<close> in order.
\<close>

definition getAliveAliens :: "'a grid_scheme \<Rightarrow> ref list" where
  "getAliveAliens g = filter (isAliveRef g) (concat (g_aliens g))"

definition getAliveCount :: "'a grid_scheme \<Rightarrow> nat" where
  "getAliveCount g = length (getAliveAliens g)"

definition isWaveCleared :: "'a grid_scheme \<Rightarrow> bool" where
  "isWaveCleared g = (getAliveCount g = 0)"

text \<open>
  \<open>destroyAlien(alien)\<close>.  The explosion added to the scene and its removal timer are
  presentation.
\<close>

definition destroyAlien :: "ref \<Rightarrow> 'a grid_scheme \<Rightarrow> int \<times> 'a grid_scheme" where
  "destroyAlien a g =
     (if \<not> a_isAlive (g_objs g a) then (0, g)
      else
        let g1 = g\<lparr>g_objs := (g_objs g)(a := (g_objs g a)\<lparr>a_visible := False, a_isAlive := False\<rparr>)\<rparr>;
            aliveCount = getAliveCount g1;
            g2 = (if aliveCount > 0
                  then g1\<lparr>g_moveSpeed := g_baseSpeed g1 * g_speedMultiplier g1
                                           * (1 + (55 - real aliveCount) * 0.02)\<rparr>
                  else g1)
        in (a_points (g_objs g2 a), g2))"

definition clear_bnd :: "grid_bnd \<Rightarrow> grid_bnd" where
  "clear_bnd g = g\<lparr>g_aliens := [], g_group := None, g_direction := 1,
                   g_moveSpeed := g_baseSpeed g\<rparr>"

definition clear_cyc :: "grid_cyc \<Rightarrow> grid_cyc" where
  "clear_cyc g = g\<lparr>g_aliens := [], g_group := None, g_direction := -1,
                   g_moveSpeed := g_baseSpeed g, currentHorizontalPosition := 0,
                   dropCount := 0\<rparr>"

text \<open>
  The body of \<open>spawnWave\<close> after \<open>this.clear()\<close>, the same in both variants up to the
  configuration.  \<open>rnd row col\<close> is the value of \<open>Math.random()\<close> for the alien created
  at that place.
\<close>

definition alienTypeOfRow :: "nat \<Rightarrow> nat" where
  "alienTypeOfRow row = (if row = 0 then 3 else if row \<le> 2 then 2 else 1)"

definition spawn_alien ::
  "config \<Rightarrow> (nat \<Rightarrow> nat \<Rightarrow> real) \<Rightarrow> nat \<Rightarrow> nat \<Rightarrow> 'a grid_scheme \<times> ref list
   \<Rightarrow> 'a grid_scheme \<times> ref list" where
  "spawn_alien cfg rnd row col = (\<lambda>(g, rowAliens).
     let totalWidth = real (cols cfg - 1) * spacingX cfg;
         offsetX = - totalWidth / 2;
         offsetY = startY cfg;
         x = offsetX + real col * spacingX cfg;
         y = offsetY - real row * spacingY cfg;
         z = startZ cfg;
         alien = (createAlien (alienTypeOfRow row) (rnd row col))
                   \<lparr>a_position := (x, y, z), a_gridRow := row, a_gridCol := col,
                    a_originalY := y\<rparr>;
         r = g_next g
     in (g\<lparr>g_objs := (g_objs g)(r := alien), g_next := Suc r\<rparr>, rowAliens @ [r]))"

definition spawn_row ::
  "config \<Rightarrow> (nat \<Rightarrow> nat \<Rightarrow> real) \<Rightarrow> nat \<Rightarrow> 'a grid_scheme \<Rightarrow> 'a grid_scheme" where
  "spawn_row cfg rnd row g =
     (case fold (spawn_alien cfg rnd row) [0..<cols cfg] (g, []) of
        (g', rowAliens) \<Rightarrow> g'\<lparr>g_aliens := g_aliens g' @ [rowAliens]\<rparr>)"

definition spawn_body ::
  "config \<Rightarrow> real \<Rightarrow> (nat \<Rightarrow> nat \<Rightarrow> real) \<Rightarrow> 'a grid_scheme \<Rightarrow> 'a grid_scheme" where
  "spawn_body cfg wave rnd g =
     (let g1 = g\<lparr>g_group := Some (0, 0, 0)\<rparr>;
          g2 = g1\<lparr>g_speedMultiplier := 1 + (wave - 1) * 0.15\<rparr>;
          g3 = g2\<lparr>g_moveSpeed := g_baseSpeed g2 * g_speedMultiplier g2\<rparr>
      in fold (spawn_row cfg rnd) [0..<rows cfg] g3)"

definition spawnWave_bnd :: "real \<Rightarrow> (nat \<Rightarrow> nat \<Rightarrow> real) \<Rightarrow> grid_bnd \<Rightarrow> grid_bnd" where
  "spawnWave_bnd wave rnd g = spawn_body config_bnd wave rnd (clear_bnd g)"

definition spawnWave_cyc :: "real \<Rightarrow> (nat \<Rightarrow> nat \<Rightarrow> real) \<Rightarrow> grid_cyc \<Rightarrow> grid_cyc" where
  "spawnWave_cyc wave rnd g = spawn_body config_cyc wave rnd (clear_cyc g)"

text \<open>
  \<open>Math.min\<close> and \<open>Math.max\<close> into an accumulator that starts at \<open>Infinity\<close> or
  \<open>-Infinity\<close>: \<open>None\<close> stands for the infinite start value, which no comparison with a
  finite bound satisfies.
\<close>

definition min_acc :: "real option \<Rightarrow> real \<Rightarrow> real option" where
  "min_acc m x = (case m of None \<Rightarrow> Some x | Some y \<Rightarrow> Some (min y x))"

definition max_acc :: "real option \<Rightarrow> real \<Rightarrow> real option" where
  "max_acc m x = (case m of None \<Rightarrow> Some x | Some y \<Rightarrow> Some (max y x))"

definition acc_ge :: "real option \<Rightarrow> real \<Rightarrow> bool" where
  "acc_ge m b = (case m of None \<Rightarrow> False | Some y \<Rightarrow> y \<ge> b)"

definition acc_le :: "real option \<Rightarrow> real \<Rightarrow> bool" where
  "acc_le m b = (case m of None \<Rightarrow> False | Some y \<Rightarrow> y \<le> b)"

definition extents :: "'a grid_scheme \<Rightarrow> real option \<times> real option \<times> real option" where
  "extents g =
     fold (\<lambda>a (leftMost, rightMost, lowestY).
             let worldPos = getWorldPosition g a
             in (min_acc leftMost (vx worldPos), max_acc rightMost (vx worldPos),
                 min_acc lowestY (vy worldPos)))
          (getAliveAliens g) (None, None, None)"

text \<open>
  The wiggle pass over the live aliens; \<open>amp\<close> is the bounce amplitude.  \<open>spawnWave\<close>
  sets \<open>originalY\<close> on every alien it puts into the grid, so the branch of the
  boundary-based variant for an undefined \<open>originalY\<close> is never taken.
\<close>

definition wiggle_alien :: "real \<Rightarrow> ref \<Rightarrow> 'a grid_scheme \<Rightarrow> 'a grid_scheme" where
  "wiggle_alien amp a g =
     (let alien = g_objs g a;
          wiggle = sin (g_wiggleTime g + a_wiggleOffset alien) * g_wiggleAmount g;
          bounce = sin (g_wiggleTime g * 2 + a_wiggleOffset alien) * amp
      in g\<lparr>g_objs := (g_objs g)(a := alien\<lparr>a_position := (vx (a_position alien),
                                                          a_originalY alien + bounce,
                                                          vz (a_position alien)),
                                          a_rotationZ := wiggle\<rparr>)\<rparr>)"

definition wiggle_pass :: "real \<Rightarrow> 'a grid_scheme \<Rightarrow> 'a grid_scheme" where
  "wiggle_pass amp g = fold (wiggle_alien amp) (getAliveAliens g) g"

definition group_add :: "vec3 \<Rightarrow> 'a grid_scheme \<Rightarrow> 'a grid_scheme" where
  "group_add d g = g\<lparr>g_group := map_option (\<lambda>gp. vadd gp d) (g_group g)\<rparr>"

text \<open>\<open>update(deltaTime)\<close> of the boundary-based variant.\<close>

definition needsToChangeDirection :: "grid_bnd \<Rightarrow> bool" where
  "needsToChangeDirection g =
     (case extents g of (leftMost, rightMost, lowestY) \<Rightarrow>
        if acc_ge rightMost (boundaryX g) \<and> g_direction g = 1 then True
        else if acc_le leftMost (- boundaryX g) \<and> g_direction g = -1 then True
        else False)"

definition hitGround_bnd :: "grid_bnd \<Rightarrow> bool" where
  "hitGround_bnd g = (case extents g of (leftMost, rightMost, lowestY) \<Rightarrow> acc_le lowestY (-3))"

definition update_bnd :: "real \<Rightarrow> grid_bnd \<Rightarrow> bool \<times> grid_bnd" where
  "update_bnd deltaTime g =
     (if g_group g = None \<or> g_aliens g = [] then (False, g)
      else
        let g1 = g\<lparr>g_wiggleTime := g_wiggleTime g + deltaTime * 3\<rparr>;
            change = needsToChangeDirection g1;
            hitGround = hitGround_bnd g1;
            g2 = (if change
                  then (group_add (0, - g_dropDistance g1, 0)
                          (g1\<lparr>g_direction := g_direction g1 * (-1)\<rparr>))
                       \<lparr>g_moveSpeed := g_moveSpeed g1 * 1.02\<rparr>
                  else group_add (g_direction g1 * g_moveSpeed g1, 0, 0) g1)
        in (hitGround, wiggle_pass 0.02 g2))"

text \<open>
  \<open>update(deltaTime)\<close> of the cycle-counted variant.  The travel since the last descent
  is accumulated exactly here and in doubles in the source: with the speed 0.02 of
  wave 1 the exact sum reaches the limit 10 at the 500th update, the rounded sum only at
  the 501st.
\<close>

definition drop_originalY :: "ref \<Rightarrow> grid_cyc \<Rightarrow> grid_cyc" where
  "drop_originalY a g =
     g\<lparr>g_objs := (g_objs g)(a := (g_objs g a)\<lparr>a_originalY := a_originalY (g_objs g a)
                                                               - g_dropDistance g\<rparr>)\<rparr>"

definition update_cyc :: "real \<Rightarrow> grid_cyc \<Rightarrow> bool \<times> grid_cyc" where
  "update_cyc deltaTime g =
     (if g_group g = None \<or> g_aliens g = [] then (False, g)
      else
        let g1 = g\<lparr>g_wiggleTime := g_wiggleTime g + deltaTime * 3\<rparr>
        in if dropCount g1 \<ge> maxDrops g1 then (True, g1)
           else
             let movement = g_direction g1 * g_moveSpeed g1;
                 g2 = (group_add (movement, 0, 0) g1)
                        \<lparr>currentHorizontalPosition := currentHorizontalPosition g1 + movement\<rparr>;
                 g3 = (if \<bar>currentHorizontalPosition g2\<bar> \<ge> horizontalLimit g2
                       then (fold drop_originalY (getAliveAliens g2)
                               (group_add (0, - g_dropDistance g2, 0)
                                  (g2\<lparr>g_direction := g_direction g2 * (-1)\<rparr>)))
                            \<lparr>currentHorizontalPosition := 0, dropCount := Suc (dropCount g2)\<rparr>
                       else g2)
             in (False, wiggle_pass 0.05 g3))"

section \<open>HUD\<close>

text \<open>
  The DOM elements, the score popup and the hit flash are presentation.  \<open>comboTimer\<close> is
  the time at which the pending \<open>setTimeout\<close> callback is due, \<open>None\<close> when none is
  pending; \<open>now\<close> is the time of the call that sets it.
\<close>

record hud =
  currentScore :: int
  displayedScore :: int
  targetScore :: int
  currentWave :: int
  currentLives :: int
  maxLives :: int
  comboCount :: int
  comboTimer :: "int option"
  comboTimeout :: int

definition HUD_init :: hud where
  "HUD_init = \<lparr>currentScore = 0, displayedScore = 0, targetScore = 0, currentWave = 1,
               currentLives = 3, maxLives = 3, comboCount = 0, comboTimer = None,
               comboTimeout = 2000\<rparr>"

definition incrementCombo :: "int \<Rightarrow> hud \<Rightarrow> hud" where
  "incrementCombo now h =
     h\<lparr>comboCount := comboCount h + 1, comboTimer := Some (now + comboTimeout h)\<rparr>"

definition resetCombo :: "hud \<Rightarrow> hud" where
  "resetCombo h = h\<lparr>comboCount := 0\<rparr>"

text \<open>One run of the \<open>animate\<close> closure of \<open>animateScore\<close>.\<close>

definition animate :: "hud \<Rightarrow> hud" where
  "animate h =
     (if displayedScore h < targetScore h
      then let diff = targetScore h - displayedScore h;
               increment = \<lceil>real_of_int diff / 10\<rceil>
           in h\<lparr>displayedScore := min (displayedScore h + increment) (targetScore h)\<rparr>
      else h)"

definition addScore :: "int \<Rightarrow> int \<Rightarrow> hud \<Rightarrow> hud" where
  "addScore now points h =
     (let multiplier = min (comboCount h) 5;
          finalPoints = points * max 1 multiplier;
          h1 = h\<lparr>targetScore := targetScore h + finalPoints\<rparr>
      in animate (incrementCombo now h1))"

text \<open>The combo timer's callback, run when its time has come.\<close>

definition hud_timers :: "int \<Rightarrow> hud \<Rightarrow> hud" where
  "hud_timers now h =
     (case comboTimer h of
        None \<Rightarrow> h
      | Some due \<Rightarrow> if due \<le> now then (resetCombo h)\<lparr>comboTimer := None\<rparr> else h)"

definition setWave :: "int \<Rightarrow> hud \<Rightarrow> hud" where
  "setWave wave h = h\<lparr>currentWave := wave\<rparr>"

definition loseLife :: "hud \<Rightarrow> int \<times> hud" where
  "loseLife h =
     (let h' = (if currentLives h > 0 then h\<lparr>currentLives := currentLives h - 1\<rparr> else h)
      in (currentLives h', h'))"

definition reset_hud :: "hud \<Rightarrow> hud" where
  "reset_hud h = h\<lparr>currentScore := 0, displayedScore := 0, targetScore := 0,
                   currentWave := 1, currentLives := maxLives h, comboCount := 0\<rparr>"

section \<open>GameManager\<close>

text \<open>
  The manager imports \<open>AlienGrid\<close>, of which the repository has the two variants; the
  grid of a game is one or the other.
\<close>

datatype alienGrid = Boundary grid_bnd | Cycle grid_cyc

fun grid_update :: "real \<Rightarrow> alienGrid \<Rightarrow> bool \<times> alienGrid" where
  "grid_update dt (Boundary g) = (case update_bnd dt g of (b, g') \<Rightarrow> (b, Boundary g'))"
| "grid_update dt (Cycle g) = (case update_cyc dt g of (b, g') \<Rightarrow> (b, Cycle g'))"

fun grid_spawnWave :: "real \<Rightarrow> (nat \<Rightarrow> nat \<Rightarrow> real) \<Rightarrow> alienGrid \<Rightarrow> alienGrid" where
  "grid_spawnWave wave rnd (Boundary g) = Boundary (spawnWave_bnd wave rnd g)"
| "grid_spawnWave wave rnd (Cycle g) = Cycle (spawnWave_cyc wave rnd g)"

fun grid_clear :: "alienGrid \<Rightarrow> alienGrid" where
  "grid_clear (Boundary g) = Boundary (clear_bnd g)"
| "grid_clear (Cycle g) = Cycle (clear_cyc g)"

fun grid_destroyAlien :: "ref \<Rightarrow> alienGrid \<Rightarrow> int \<times> alienGrid" where
  "grid_destroyAlien a (Boundary g) = (case destroyAlien a g of (p, g') \<Rightarrow> (p, Boundary g'))"
| "grid_destroyAlien a (Cycle g) = (case destroyAlien a g of (p, g') \<Rightarrow> (p, Cycle g'))"

fun grid_getAliveAliens :: "alienGrid \<Rightarrow> ref list" where
  "grid_getAliveAliens (Boundary g) = getAliveAliens g"
| "grid_getAliveAliens (Cycle g) = getAliveAliens g"

fun grid_isWaveCleared :: "alienGrid \<Rightarrow> bool" where
  "grid_isWaveCleared (Boundary g) = isWaveCleared g"
| "grid_isWaveCleared (Cycle g) = isWaveCleared g"

fun grid_isAlive :: "alienGrid \<Rightarrow> ref \<Rightarrow> bool" where
  "grid_isAlive (Boundary g) = isAliveRef g"
| "grid_isAlive (Cycle g) = isAliveRef g"

fun grid_worldPos :: "alienGrid \<Rightarrow> ref \<Rightarrow> vec3" where
  "grid_worldPos (Boundary g) = getWorldPosition g"
| "grid_worldPos (Cycle g) = getWorldPosition g"

text \<open>
  The state of the manager with the systems it owns.  Sound, screens and rendering are
  collaborators without state the loop reads.  \<open>spawnTimers\<close> holds the due times of the
  pending \<open>setTimeout\<close> callbacks of \<open>onWaveComplete\<close>.
\<close>

record game =
  isPlaying :: bool
  isPaused :: bool
  wave :: int
  aliensKilled :: int
  alienGridOf :: alienGrid
  shootingSystem :: shooting
  hudOf :: hud
  cameraOf :: camera
  spawnTimers :: "int list"

definition gm_spawnWave :: "(nat \<Rightarrow> nat \<Rightarrow> real) \<Rightarrow> game \<Rightarrow> game" where
  "gm_spawnWave rnd st =
     st\<lparr>alienGridOf := grid_spawnWave (real_of_int (wave st)) rnd (alienGridOf st),
        hudOf := setWave (wave st) (hudOf st)\<rparr>"

definition gameOver :: "game \<Rightarrow> game" where
  "gameOver st =
     st\<lparr>isPlaying := False, alienGridOf := grid_clear (alienGridOf st),
        shootingSystem := clear_shots (shootingSystem st)\<rparr>"

definition onAlienHit :: "int \<Rightarrow> ref \<Rightarrow> game \<Rightarrow> game" where
  "onAlienHit now a st =
     (case grid_destroyAlien a (alienGridOf st) of
        (points, g') \<Rightarrow>
          st\<lparr>alienGridOf := g', aliensKilled := aliensKilled st + 1,
             hudOf := addScore now points (hudOf st)\<rparr>)"

definition onAlienHitGround :: "(nat \<Rightarrow> nat \<Rightarrow> real) \<Rightarrow> game \<Rightarrow> game" where
  "onAlienHitGround rnd st =
     (case loseLife (hudOf st) of
        (remainingLives, h') \<Rightarrow>
          let st1 = st\<lparr>hudOf := h'\<rparr>
          in if remainingLives \<le> 0 then gameOver st1
             else gm_spawnWave rnd (st1\<lparr>alienGridOf := grid_clear (alienGridOf st1)\<rparr>))"

definition onWaveComplete :: "int \<Rightarrow> game \<Rightarrow> game" where
  "onWaveComplete now st =
     st\<lparr>wave := wave st + 1, spawnTimers := spawnTimers st @ [now + 1500]\<rparr>"

text \<open>
  One run of \<open>gameLoop\<close>: \<open>now\<close> is the wall-clock time of the frame, \<open>deltaTime\<close> the
  value of \<open>clock.getDelta()\<close>.
\<close>

definition gameLoop :: "int \<Rightarrow> real \<Rightarrow> (nat \<Rightarrow> nat \<Rightarrow> real) \<Rightarrow> game \<Rightarrow> game" where
  "gameLoop now deltaTime rnd st =
     (if \<not> isPlaying st then st
      else
        case grid_update deltaTime (alienGridOf st) of
          (hitGround, g1) \<Rightarrow>
            let st1 = st\<lparr>alienGridOf := g1\<rparr>;
                st2 = (if hitGround then onAlienHitGround rnd st1 else st1);
                aliveAliens = grid_getAliveAliens (alienGridOf st2)
            in case update_shots now deltaTime (grid_isAlive (alienGridOf st2))
                      (grid_worldPos (alienGridOf st2)) aliveAliens (shootingSystem st2) of
                 (hits, sh) \<Rightarrow>
                   let st3 = st2\<lparr>shootingSystem := sh\<rparr>;
                       st4 = fold (onAlienHit now) hits st3
                   in if grid_isWaveCleared (alienGridOf st4) then onWaveComplete now st4
                      else st4)"

text \<open>The callbacks of \<open>onWaveComplete\<close> that are due at \<open>now\<close>, run in order.\<close>

fun run_spawn_timers :: "int \<Rightarrow> (nat \<Rightarrow> nat \<Rightarrow> real) \<Rightarrow> int list \<Rightarrow> game \<Rightarrow> game" where
  "run_spawn_timers now rnd [] st = st"
| "run_spawn_timers now rnd (due # rest) st =
     (if due \<le> now
      then run_spawn_timers now rnd rest
             (let st' = st\<lparr>spawnTimers := remove1 due (spawnTimers st)\<rparr>
              in if isPlaying st' then gm_spawnWave rnd st' else st')
      else run_spawn_timers now rnd rest st)"

definition fire_timers :: "int \<Rightarrow> (nat \<Rightarrow> nat \<Rightarrow> real) \<Rightarrow> game \<Rightarrow> game" where
  "fire_timers now rnd st =
     run_spawn_timers now rnd (spawnTimers st) (st\<lparr>hudOf := hud_timers now (hudOf st)\<rparr>)"

text \<open>\<open>handleClick\<close> and \<open>handleTouch\<close>: the fire action.\<close>

definition handleClick :: "int \<Rightarrow> game \<Rightarrow> game" where
  "handleClick now st =
     (if \<not> isPlaying st then st
      else st\<lparr>shootingSystem := snd (shoot now (cameraOf st) (shootingSystem st))\<rparr>)"

text \<open>
  The state \<open>startGame\<close> leaves once camera and audio are ready, before its first
  \<open>gameLoop\<close> call.
\<close>

definition startGame :: "(nat \<Rightarrow> nat \<Rightarrow> real) \<Rightarrow> game \<Rightarrow> game" where
  "startGame rnd st =
     gm_spawnWave rnd
       (st\<lparr>hudOf := reset_hud (hudOf st), isPlaying := True, wave := 1, aliensKilled := 0\<rparr>)"

definition GameManager_init :: "alienGrid \<Rightarrow> game" where
  "GameManager_init g =
     \<lparr>isPlaying = False, isPaused = False, wave = 1, aliensKilled = 0, alienGridOf = g,
      shootingSystem = ShootingSystem_init, hudOf = HUD_init,
      cameraOf = \<lparr>cam_position = (0, 0, 5), cam_forward = (0, 0, -1)\<rparr>, spawnTimers = []\<rparr>"

section \<open>Notions used in the proofs\<close>

text \<open>
  What one iteration of the outer loop of \<open>update\<close> does to one projectile, stated
  apart from the index arithmetic: the projectile as moved, the projectiles it leaves in
  the list, and the hits it records.
\<close>

definition moved_of :: "real \<Rightarrow> projectile \<Rightarrow> projectile" where
  "moved_of speed p = p\<lparr>p_position := vadd (p_position p) (multiplyScalar (p_direction p) speed)\<rparr>"

definition survivors_of ::
  "int \<Rightarrow> ('t \<Rightarrow> bool) \<Rightarrow> ('t \<Rightarrow> vec3) \<Rightarrow> 't list \<Rightarrow> int \<Rightarrow> real \<Rightarrow> projectile \<Rightarrow> projectile list" where
  "survivors_of now alive wpos targets lifetime speed p =
     (if \<not> p_isActive p then [p]
      else if now - p_createdAt p > lifetime then []
      else (case find_hit alive wpos (p_position (moved_of speed p)) targets of
              None \<Rightarrow> [moved_of speed p] | Some t \<Rightarrow> []))"

definition hits_of ::
  "int \<Rightarrow> ('t \<Rightarrow> bool) \<Rightarrow> ('t \<Rightarrow> vec3) \<Rightarrow> 't list \<Rightarrow> int \<Rightarrow> real \<Rightarrow> projectile \<Rightarrow> 't list" where
  "hits_of now alive wpos targets lifetime speed p =
     (if \<not> p_isActive p then []
      else if now - p_createdAt p > lifetime then []
      else (case find_hit alive wpos (p_position (moved_of speed p)) targets of
              None \<Rightarrow> [] | Some t \<Rightarrow> [t]))"

text \<open>
  The alien \<open>spawnWave\<close> creates at a grid place, and the store after \<open>m\<close> rows have been
  created from reference \<open>n\<close> on.
\<close>

definition spawned_alien :: "config \<Rightarrow> (nat \<Rightarrow> nat \<Rightarrow> real) \<Rightarrow> nat \<Rightarrow> nat \<Rightarrow> alien" where
  "spawned_alien cfg rnd row col =
     \<lparr>a_position = (- (real (cols cfg - 1) * spacingX cfg) / 2 + real col * spacingX cfg,
                    startY cfg - real row * spacingY cfg, startZ cfg),
      a_rotationZ = 0, a_visible = True, a_type = alienTypeOfRow row,
      a_points = int (alienTypeOfRow row) * 10, a_isAlive = True,
      a_wiggleOffset = rnd row col * pi * 2, a_gridRow = row, a_gridCol = col,
      a_originalY = startY cfg - real row * spacingY cfg\<rparr>"

definition spawned_objs ::
  "config \<Rightarrow> (nat \<Rightarrow> nat \<Rightarrow> real) \<Rightarrow> nat \<Rightarrow> nat \<Rightarrow> (ref \<Rightarrow> alien) \<Rightarrow> ref \<Rightarrow> alien" where
  "spawned_objs cfg rnd n m objs r =
     (if n \<le> r \<and> r < n + m * cols cfg
      then spawned_alien cfg rnd ((r - n) div cols cfg) ((r - n) mod cols cfg)
      else objs r)"

text \<open>The reversal test of the cycle-counted \<open>update\<close>, on the state before the call.\<close>

definition reverses_cyc :: "grid_cyc \<Rightarrow> bool" where
  "reverses_cyc g =
     (\<bar>currentHorizontalPosition g + g_direction g * g_moveSpeed g\<bar> \<ge> horizontalLimit g)"

text \<open>The condition under which \<open>update\<close> returns true, on the state before the call.\<close>

fun grid_hitsGround :: "alienGrid \<Rightarrow> bool" where
  "grid_hitsGround (Boundary g) = (g_group g \<noteq> None \<and> g_aliens g \<noteq> [] \<and> hitGround_bnd g)"
| "grid_hitsGround (Cycle g) = (g_group g \<noteq> None \<and> g_aliens g \<noteq> [] \<and> maxDrops g \<le> dropCount g)"

section \<open>Cooldown\<close>

text \<open>
  C8. A \<open>shoot()\<close> call made less than the 200 ms cooldown after the last successful shot
  returns false and leaves the whole state as it was: the projectile list (hence the
  projectile count) and the last-shot timestamp are unchanged.
\<close>

theorem shoot_cooldown_rejects:
  assumes "cooldown s = 200" and "now - lastShotTime s < 200"
  shows "shoot now cam s = (False, s)"
  using assms by (simp add: shoot_def)

theorem shoot_cooldown_rejects_witness:
  "cooldown (snd (shoot 1000 \<lparr>cam_position = (0, 0, 5), cam_forward = (0, 0, -1)\<rparr> ShootingSystem_init)) = 200
   \<and> 1100 - lastShotTime (snd (shoot 1000 \<lparr>cam_position = (0, 0, 5), cam_forward = (0, 0, -1)\<rparr> ShootingSystem_init)) < 200
   \<and> length (projectiles (snd (shoot 1000 \<lparr>cam_position = (0, 0, 5), cam_forward = (0, 0, -1)\<rparr> ShootingSystem_init))) = 1
   \<and> shoot 1100 \<lparr>cam_position = (0, 0, 5), cam_forward = (0, 0, -1)\<rparr>
        (snd (shoot 1000 \<lparr>cam_position = (0, 0, 5), cam_forward = (0, 0, -1)\<rparr> ShootingSystem_init))
      = (False, snd (shoot 1000 \<lparr>cam_position = (0, 0, 5), cam_forward = (0, 0, -1)\<rparr> ShootingSystem_init))"
  using shoot_cooldown_rejects
    [of "snd (shoot 1000 \<lparr>cam_position = (0, 0, 5), cam_forward = (0, 0, -1)\<rparr> ShootingSystem_init)"
        1100 "\<lparr>cam_position = (0, 0, 5), cam_forward = (0, 0, -1)\<rparr>"]
  by (simp add: shoot_def ShootingSystem_init_def Let_def)

section \<open>The projectile loop, projectile by projectile\<close>

lemma update_loop_char:
  "i \<le> length (projectiles s) \<Longrightarrow>
   update_loop now alive wpos targets i (s, hits) =
     (s\<lparr>projectiles :=
          concat (map (survivors_of now alive wpos targets (projectileLifetime s) (projectileSpeed s))
                      (take i (projectiles s)))
          @ drop i (projectiles s)\<rparr>,
      hits @ concat (map (hits_of now alive wpos targets (projectileLifetime s) (projectileSpeed s))
                         (rev (take i (projectiles s)))))"
proof (induction i arbitrary: s hits)
  case 0
  then show ?case by simp
next
  case (Suc i)
  let ?ps = "projectiles s"
  let ?p = "?ps ! i"
  let ?S = "survivors_of now alive wpos targets (projectileLifetime s) (projectileSpeed s)"
  let ?H = "hits_of now alive wpos targets (projectileLifetime s) (projectileSpeed s)"
  let ?m = "moved_of (projectileSpeed s) ?p"
  from Suc.prems have lt: "i < length ?ps" by simp
  have tk: "take (Suc i) ?ps = take i ?ps @ [?p]"
    using lt by (simp add: take_Suc_conv_app_nth)
  have dr: "drop i ?ps = ?p # drop (Suc i) ?ps"
    using lt by (simp add: Cons_nth_drop_Suc)
  have step: "\<And>s' h'. projectileLifetime s' = projectileLifetime s \<Longrightarrow>
          projectileSpeed s' = projectileSpeed s \<Longrightarrow>
          projectiles s' = take i ?ps @ ?S ?p @ drop (Suc i) ?ps \<Longrightarrow>
          s'\<lparr>projectiles := projectiles s\<rparr> = s \<Longrightarrow>
          update_loop now alive wpos targets i (s', hits @ ?H ?p) =
     (s\<lparr>projectiles := concat (map ?S (take (Suc i) ?ps)) @ drop (Suc i) ?ps\<rparr>,
      hits @ concat (map ?H (rev (take (Suc i) ?ps))))"
  proof -
    fix s' :: shooting and h' :: "'a list"
    assume a: "projectileLifetime s' = projectileLifetime s"
       "projectileSpeed s' = projectileSpeed s"
       "projectiles s' = take i ?ps @ ?S ?p @ drop (Suc i) ?ps"
       "s'\<lparr>projectiles := projectiles s\<rparr> = s"
    have le: "i \<le> length (projectiles s')" using lt a(3) by simp
    have t': "take i (projectiles s') = take i ?ps" using lt a(3) by simp
    have d': "drop i (projectiles s') = ?S ?p @ drop (Suc i) ?ps" using lt a(3) by simp
    have e: "\<And>xs. s'\<lparr>projectiles := xs\<rparr> = s\<lparr>projectiles := xs\<rparr>"
    proof -
      fix xs
      have "s'\<lparr>projectiles := xs\<rparr> = (s'\<lparr>projectiles := projectiles s\<rparr>)\<lparr>projectiles := xs\<rparr>" by simp
      then show "s'\<lparr>projectiles := xs\<rparr> = s\<lparr>projectiles := xs\<rparr>" by (simp only: a(4))
    qed
    show "update_loop now alive wpos targets i (s', hits @ ?H ?p) =
     (s\<lparr>projectiles := concat (map ?S (take (Suc i) ?ps)) @ drop (Suc i) ?ps\<rparr>,
      hits @ concat (map ?H (rev (take (Suc i) ?ps))))"
      using Suc.IH[OF le, of "hits @ ?H ?p"] by (simp add: a(1,2) t' d' tk e)
  qed
  show ?case
  proof (cases "p_isActive ?p")
    case False
    have S: "?S ?p = [?p]" and H: "?H ?p = []"
      using False by (simp_all add: survivors_of_def hits_of_def)
    have "update_loop now alive wpos targets (Suc i) (s, hits)
          = update_loop now alive wpos targets i (s, hits @ ?H ?p)"
      using False H by simp
    also have "\<dots> = (s\<lparr>projectiles := concat (map ?S (take (Suc i) ?ps)) @ drop (Suc i) ?ps\<rparr>,
      hits @ concat (map ?H (rev (take (Suc i) ?ps))))"
      by (rule step) (simp_all add: S id_take_nth_drop[OF lt, symmetric])
    finally show ?thesis .
  next
    case True
    let ?s1 = "s\<lparr>projectiles := ?ps[i := ?m]\<rparr>"
    show ?thesis
    proof (cases "now - p_createdAt ?p > projectileLifetime s")
      case exp: True
      let ?s2 = "removeProjectile i ?s1"
      have S: "?S ?p = []" and H: "?H ?p = []"
        using True exp by (simp_all add: survivors_of_def hits_of_def)
      have s2eq: "?s2 = s\<lparr>projectiles := take i ?ps @ drop (Suc i) ?ps\<rparr>"
        using lt by (simp add: removeProjectile_def)
      have "update_loop now alive wpos targets (Suc i) (s, hits)
            = update_loop now alive wpos targets i (?s2, hits @ ?H ?p)"
        using True exp H by (simp add: moved_of_def Let_def)
      also have "\<dots> = (s\<lparr>projectiles := concat (map ?S (take (Suc i) ?ps)) @ drop (Suc i) ?ps\<rparr>,
          hits @ concat (map ?H (rev (take (Suc i) ?ps))))"
        by (rule step) (use lt in \<open>simp_all add: S removeProjectile_def\<close>)
      finally show ?thesis .
    next
      case nexp: False
      show ?thesis
      proof (cases "find_hit alive wpos (p_position ?m) targets")
        case None
        have S: "?S ?p = [?m]" and H: "?H ?p = []"
          using True nexp None by (simp_all add: survivors_of_def hits_of_def)
        have ps1: "projectiles ?s1 = take i ?ps @ ?m # drop (Suc i) ?ps"
          using lt by (simp add: upd_conv_take_nth_drop)
        have "update_loop now alive wpos targets (Suc i) (s, hits)
              = update_loop now alive wpos targets i (?s1, hits @ ?H ?p)"
          using True nexp None H by (simp add: moved_of_def Let_def)
        also have "\<dots> = (s\<lparr>projectiles := concat (map ?S (take (Suc i) ?ps)) @ drop (Suc i) ?ps\<rparr>,
          hits @ concat (map ?H (rev (take (Suc i) ?ps))))"
          by (rule step) (simp_all add: S ps1)
        finally show ?thesis .
      next
        case (Some t)
        let ?s2 = "removeProjectile i (?s1\<lparr>projectiles := (projectiles ?s1)[i := ?m\<lparr>p_isActive := False\<rparr>]\<rparr>)"
        have S: "?S ?p = []" and H: "?H ?p = [t]"
          using True nexp Some by (simp_all add: survivors_of_def hits_of_def)
        have s2eq: "?s2 = s\<lparr>projectiles := take i ?ps @ drop (Suc i) ?ps\<rparr>"
          using lt by (simp add: removeProjectile_def)
        have "update_loop now alive wpos targets (Suc i) (s, hits)
              = update_loop now alive wpos targets i (?s2, hits @ ?H ?p)"
          using True nexp Some H by (simp add: moved_of_def Let_def)
        also have "\<dots> = (s\<lparr>projectiles := concat (map ?S (take (Suc i) ?ps)) @ drop (Suc i) ?ps\<rparr>,
          hits @ concat (map ?H (rev (take (Suc i) ?ps))))"
          by (rule step) (use lt in \<open>simp_all add: S removeProjectile_def\<close>)
        finally show ?thesis .
      qed
    qed
  qed
qed

section \<open>What the formation's passes keep\<close>

lemma fold_wiggle_fields:
  "g_next (fold (wiggle_alien amp) xs g) = g_next g"
  "g_aliens (fold (wiggle_alien amp) xs g) = g_aliens g"
  "g_direction (fold (wiggle_alien amp) xs g) = g_direction g"
  "g_moveSpeed (fold (wiggle_alien amp) xs g) = g_moveSpeed g"
  "g_dropDistance (fold (wiggle_alien amp) xs g) = g_dropDistance g"
  "g_baseSpeed (fold (wiggle_alien amp) xs g) = g_baseSpeed g"
  "g_speedMultiplier (fold (wiggle_alien amp) xs g) = g_speedMultiplier g"
  "g_wiggleTime (fold (wiggle_alien amp) xs g) = g_wiggleTime g"
  "g_wiggleAmount (fold (wiggle_alien amp) xs g) = g_wiggleAmount g"
  "g_group (fold (wiggle_alien amp) xs g) = g_group g"
  "grid.more (fold (wiggle_alien amp) xs g) = grid.more g"
  by (induction xs arbitrary: g; simp add: wiggle_alien_def Let_def)+

lemma fold_wiggle_objs:
  "a_isAlive (g_objs (fold (wiggle_alien amp) xs g) r) = a_isAlive (g_objs g r)"
  "a_points (g_objs (fold (wiggle_alien amp) xs g) r) = a_points (g_objs g r)"
  "vx (a_position (g_objs (fold (wiggle_alien amp) xs g) r)) = vx (a_position (g_objs g r))"
  "vz (a_position (g_objs (fold (wiggle_alien amp) xs g) r)) = vz (a_position (g_objs g r))"
  "a_originalY (g_objs (fold (wiggle_alien amp) xs g) r) = a_originalY (g_objs g r)"
  by (induction xs arbitrary: g; simp add: wiggle_alien_def Let_def vx_def vz_def)+

lemma fold_wiggle_ext:
  "boundaryX (fold (wiggle_alien amp) xs b) = boundaryX b"
  "horizontalLimit (fold (wiggle_alien amp) xs c) = horizontalLimit c"
  "currentHorizontalPosition (fold (wiggle_alien amp) xs c) = currentHorizontalPosition c"
  "dropCount (fold (wiggle_alien amp) xs c) = dropCount c"
  "maxDrops (fold (wiggle_alien amp) xs c) = maxDrops c"
  by (induction xs arbitrary: b c; simp add: wiggle_alien_def Let_def)+

lemma wiggle_pass_nil: "getAliveAliens g = [] \<Longrightarrow> wiggle_pass amp g = g"
  by (simp add: wiggle_pass_def)

lemma getAliveAliens_cong:
  "g_aliens g' = g_aliens g \<Longrightarrow> (\<And>r. a_isAlive (g_objs g' r) = a_isAlive (g_objs g r))
   \<Longrightarrow> getAliveAliens g' = getAliveAliens g"
  by (simp add: getAliveAliens_def isAliveRef_def cong: filter_cong)

lemma getAliveAliens_wiggle [simp]: "getAliveAliens (wiggle_pass amp g) = getAliveAliens g"
  by (rule getAliveAliens_cong) (simp_all add: wiggle_pass_def fold_wiggle_fields fold_wiggle_objs)

lemma group_add_fields [simp]:
  "g_objs (group_add d g) = g_objs g"
  "g_next (group_add d g) = g_next g"
  "g_aliens (group_add d g) = g_aliens g"
  "g_direction (group_add d g) = g_direction g"
  "g_moveSpeed (group_add d g) = g_moveSpeed g"
  "g_dropDistance (group_add d g) = g_dropDistance g"
  "g_baseSpeed (group_add d g) = g_baseSpeed g"
  "g_speedMultiplier (group_add d g) = g_speedMultiplier g"
  "g_wiggleTime (group_add d g) = g_wiggleTime g"
  "g_wiggleAmount (group_add d g) = g_wiggleAmount g"
  "g_group (group_add d g) = map_option (\<lambda>gp. vadd gp d) (g_group g)"
  "grid.more (group_add d g) = grid.more g"
  "boundaryX (group_add d b) = boundaryX b"
  "horizontalLimit (group_add d c) = horizontalLimit c"
  "currentHorizontalPosition (group_add d c) = currentHorizontalPosition c"
  "dropCount (group_add d c) = dropCount c"
  "maxDrops (group_add d c) = maxDrops c"
  by (simp_all add: group_add_def)

lemma fold_extents:
  "fold (\<lambda>a (l, r, y). (min_acc l (f a), max_acc r (f a), min_acc y (h a))) xs (l0, r0, y0)
   = (fold (\<lambda>a l. min_acc l (f a)) xs l0, fold (\<lambda>a r. max_acc r (f a)) xs r0,
      fold (\<lambda>a y. min_acc y (h a)) xs y0)"
  by (induction xs arbitrary: l0 r0 y0) simp_all

lemma acc_ge_fold:
  "acc_ge (fold (\<lambda>a r. max_acc r (f a)) xs r0) b
   \<longleftrightarrow> acc_ge r0 b \<or> (\<exists>a \<in> set xs. f a \<ge> b)"
  by (induction xs arbitrary: r0) (auto simp: acc_ge_def max_acc_def split: option.splits)

lemma acc_le_fold:
  "acc_le (fold (\<lambda>a r. min_acc r (f a)) xs r0) b
   \<longleftrightarrow> acc_le r0 b \<or> (\<exists>a \<in> set xs. f a \<le> b)"
  by (induction xs arbitrary: r0) (auto simp: acc_le_def min_acc_def split: option.splits)

lemma acc_None [simp]: "acc_ge None b = False" "acc_le None b = False"
  by (simp_all add: acc_ge_def acc_le_def)

lemma extents_eq:
  "extents g = (fold (\<lambda>a l. min_acc l (vx (getWorldPosition g a))) (getAliveAliens g) None,
                fold (\<lambda>a r. max_acc r (vx (getWorldPosition g a))) (getAliveAliens g) None,
                fold (\<lambda>a y. min_acc y (vy (getWorldPosition g a))) (getAliveAliens g) None)"
  unfolding extents_def Let_def by (rule fold_extents)

lemma needsToChangeDirection_iff:
  "needsToChangeDirection g \<longleftrightarrow>
     (g_direction g = 1 \<and> (\<exists>a \<in> set (getAliveAliens g). vx (getWorldPosition g a) \<ge> boundaryX g))
   \<or> (g_direction g = -1 \<and> (\<exists>a \<in> set (getAliveAliens g). vx (getWorldPosition g a) \<le> - boundaryX g))"
  by (auto simp: needsToChangeDirection_def extents_eq acc_ge_fold acc_le_fold)

lemma hitGround_bnd_iff:
  "hitGround_bnd g \<longleftrightarrow> (\<exists>a \<in> set (getAliveAliens g). vy (getWorldPosition g a) \<le> -3)"
  by (simp add: hitGround_bnd_def extents_eq acc_le_fold)

lemma needsToChangeDirection_wiggleTime [simp]:
  "needsToChangeDirection (g\<lparr>g_wiggleTime := t\<rparr>) = needsToChangeDirection g"
  by (simp add: needsToChangeDirection_iff getAliveAliens_def isAliveRef_def getWorldPosition_def
           cong: option.case_cong)

lemma update_bnd_reverse:
  assumes "g_group g = Some gp" "g_aliens g \<noteq> []" "needsToChangeDirection g"
  shows "g_direction (snd (update_bnd dt g)) = - g_direction g"
    and "g_moveSpeed (snd (update_bnd dt g)) = g_moveSpeed g * 1.02"
    and "g_group (snd (update_bnd dt g)) = Some (vadd gp (0, - g_dropDistance g, 0))"
  using assms by (simp_all add: update_bnd_def Let_def wiggle_pass_def fold_wiggle_fields)

lemma update_bnd_advance:
  assumes "g_group g = Some gp" "g_aliens g \<noteq> []" "\<not> needsToChangeDirection g"
  shows "g_direction (snd (update_bnd dt g)) = g_direction g"
    and "g_moveSpeed (snd (update_bnd dt g)) = g_moveSpeed g"
    and "g_group (snd (update_bnd dt g)) = Some (vadd gp (g_direction g * g_moveSpeed g, 0, 0))"
  using assms by (simp_all add: update_bnd_def Let_def wiggle_pass_def fold_wiggle_fields)

lemma update_bnd_keeps:
  "g_aliens (snd (update_bnd dt g)) = g_aliens g"
  "g_baseSpeed (snd (update_bnd dt g)) = g_baseSpeed g"
  "g_speedMultiplier (snd (update_bnd dt g)) = g_speedMultiplier g"
  "g_dropDistance (snd (update_bnd dt g)) = g_dropDistance g"
  "boundaryX (snd (update_bnd dt g)) = boundaryX g"
  "g_next (snd (update_bnd dt g)) = g_next g"
  "a_isAlive (g_objs (snd (update_bnd dt g)) r) = a_isAlive (g_objs g r)"
  "a_points (g_objs (snd (update_bnd dt g)) r) = a_points (g_objs g r)"
  "vx (a_position (g_objs (snd (update_bnd dt g)) r)) = vx (a_position (g_objs g r))"
  by (simp_all add: update_bnd_def Let_def wiggle_pass_def fold_wiggle_fields fold_wiggle_objs
                    fold_wiggle_ext)

lemma getAliveAliens_update_bnd [simp]:
  "getAliveAliens (snd (update_bnd dt g)) = getAliveAliens g"
  by (rule getAliveAliens_cong) (simp_all add: update_bnd_keeps)

section \<open>The grid a wave spawns\<close>

lemma spawn_alien_eq:
  "spawn_alien cfg rnd row col (g, acc) =
     (g\<lparr>g_objs := (g_objs g)(g_next g := spawned_alien cfg rnd row col), g_next := Suc (g_next g)\<rparr>,
      acc @ [g_next g])"
  by (simp add: spawn_alien_def spawned_alien_def createAlien_def Let_def)

lemma fold_spawn_alien:
  "fold (spawn_alien cfg rnd row) [0..<m] (g, acc) =
     (g\<lparr>g_objs := (\<lambda>r. if g_next g \<le> r \<and> r < g_next g + m
                          then spawned_alien cfg rnd row (r - g_next g) else g_objs g r),
        g_next := g_next g + m\<rparr>,
      acc @ [g_next g..<g_next g + m])"
proof (induction m)
  case 0
  have "(\<lambda>r. if g_next g \<le> r \<and> r < g_next g
             then spawned_alien cfg rnd row (r - g_next g) else g_objs g r) = g_objs g"
    by (rule ext) auto
  then show ?case by simp
next
  case (Suc m)
  have f: "(\<lambda>r. if g_next g \<le> r \<and> r < g_next g + m
                 then spawned_alien cfg rnd row (r - g_next g) else g_objs g r)
             (g_next g + m := spawned_alien cfg rnd row m)
         = (\<lambda>r. if g_next g \<le> r \<and> r < g_next g + Suc m
                 then spawned_alien cfg rnd row (r - g_next g) else g_objs g r)"
    by (rule ext) auto
  show ?case
    by (simp add: Suc.IH spawn_alien_eq f)
qed

lemma spawn_row_eq:
  "spawn_row cfg rnd row g =
     g\<lparr>g_objs := (\<lambda>r. if g_next g \<le> r \<and> r < g_next g + cols cfg
                          then spawned_alien cfg rnd row (r - g_next g) else g_objs g r),
        g_next := g_next g + cols cfg,
        g_aliens := g_aliens g @ [[g_next g..<g_next g + cols cfg]]\<rparr>"
  by (simp add: spawn_row_def fold_spawn_alien)

lemma div_mod_block:
  fixes k c m :: nat
  assumes "m * c \<le> k" "k < m * c + c"
  shows "k div c = m" "k mod c = k - m * c"
proof -
  show d: "k div c = m"
    using assms by (intro div_nat_eqI) (simp_all add: mult.commute)
  have "k = c * (k div c) + k mod c" by simp
  then show "k mod c = k - m * c" using d by (metis add_diff_cancel_left' mult.commute)
qed

lemma fold_spawn_row:
  "fold (spawn_row cfg rnd) [0..<m] g =
     g\<lparr>g_objs := spawned_objs cfg rnd (g_next g) m (g_objs g),
        g_next := g_next g + m * cols cfg,
        g_aliens := g_aliens g
           @ map (\<lambda>row. [g_next g + row * cols cfg..<g_next g + row * cols cfg + cols cfg]) [0..<m]\<rparr>"
proof (induction m)
  case 0
  have "spawned_objs cfg rnd (g_next g) 0 (g_objs g) = g_objs g"
    by (rule ext) (auto simp: spawned_objs_def)
  then show ?case by simp
next
  case (Suc m)
  let ?n = "g_next g" and ?c = "cols cfg"
  have f: "(\<lambda>r. if ?n + m * ?c \<le> r \<and> r < ?n + m * ?c + ?c
                 then spawned_alien cfg rnd m (r - (?n + m * ?c))
                 else spawned_objs cfg rnd ?n m (g_objs g) r)
           = spawned_objs cfg rnd ?n (Suc m) (g_objs g)"
  proof (rule ext)
    fix r
    show "(if ?n + m * ?c \<le> r \<and> r < ?n + m * ?c + ?c
           then spawned_alien cfg rnd m (r - (?n + m * ?c))
           else spawned_objs cfg rnd ?n m (g_objs g) r)
          = spawned_objs cfg rnd ?n (Suc m) (g_objs g) r"
    proof (cases "?n + m * ?c \<le> r \<and> r < ?n + m * ?c + ?c")
      case True
      then have b: "m * ?c \<le> r - ?n" "r - ?n < m * ?c + ?c" by auto
      have "(r - ?n) div ?c = m" "(r - ?n) mod ?c = r - ?n - m * ?c"
        using div_mod_block[OF b] by auto
      moreover have "r - ?n - m * ?c = r - (?n + m * ?c)" by simp
      ultimately show ?thesis using True by (simp add: spawned_objs_def)
    next
      case False
      then show ?thesis by (auto simp: spawned_objs_def)
    qed
  qed
  define G' where "G' = g\<lparr>g_objs := spawned_objs cfg rnd ?n m (g_objs g), g_next := ?n + m * ?c,
          g_aliens := g_aliens g @ map (\<lambda>row. [?n + row * ?c..<?n + row * ?c + ?c]) [0..<m]\<rparr>"
  have n': "g_next G' = ?n + m * ?c" "g_objs G' = spawned_objs cfg rnd ?n m (g_objs g)"
    "g_aliens G' = g_aliens g @ map (\<lambda>row. [?n + row * ?c..<?n + row * ?c + ?c]) [0..<m]"
    by (simp_all add: G'_def)
  have e1: "(\<lambda>r. if g_next G' \<le> r \<and> r < g_next G' + ?c
                  then spawned_alien cfg rnd m (r - g_next G') else g_objs G' r)
            = spawned_objs cfg rnd ?n (Suc m) (g_objs g)"
    unfolding n' by (rule f)
  have e2: "g_next G' + ?c = ?n + Suc m * ?c"
    by (simp add: n')
  have e3: "g_aliens G' @ [[g_next G'..<g_next G' + ?c]]
            = g_aliens g @ map (\<lambda>row. [?n + row * ?c..<?n + row * ?c + ?c]) [0..<Suc m]"
    by (simp add: n')
  have "fold (spawn_row cfg rnd) [0..<Suc m] g
          = spawn_row cfg rnd m (fold (spawn_row cfg rnd) [0..<m] g)"
    by simp
  also have "\<dots> = spawn_row cfg rnd m G'"
    by (simp only: Suc.IH G'_def)
  also have "\<dots> = G'\<lparr>g_objs := spawned_objs cfg rnd ?n (Suc m) (g_objs g),
        g_next := ?n + Suc m * ?c,
        g_aliens := g_aliens g @ map (\<lambda>row. [?n + row * ?c..<?n + row * ?c + ?c]) [0..<Suc m]\<rparr>"
    by (simp only: spawn_row_eq[of cfg rnd m G'] e1 e3) (simp only: e2)
  also have "\<dots> = g\<lparr>g_objs := spawned_objs cfg rnd ?n (Suc m) (g_objs g),
        g_next := ?n + Suc m * ?c,
        g_aliens := g_aliens g @ map (\<lambda>row. [?n + row * ?c..<?n + row * ?c + ?c]) [0..<Suc m]\<rparr>"
    by (simp add: G'_def)
  finally show ?case .
qed

lemma concat_blocks:
  "concat (map (\<lambda>row. [n + row * c..<n + row * c + c]) [0..<m]) = [n..<n + m * c]"
proof (induction m)
  case 0
  then show ?case by simp
next
  case (Suc m)
  have "[n..<n + m * c] @ [n + m * c..<n + m * c + c] = [n..<n + m * c + c]"
    by (metis add.assoc le_add1 upt_add_eq_append)
  then show ?case by (simp add: Suc.IH) (simp add: ac_simps)
qed

lemma spawn_body_eq:
  "spawn_body cfg w rnd g =
     g\<lparr>g_objs := spawned_objs cfg rnd (g_next g) (rows cfg) (g_objs g),
        g_next := g_next g + rows cfg * cols cfg,
        g_aliens := g_aliens g
           @ map (\<lambda>row. [g_next g + row * cols cfg..<g_next g + row * cols cfg + cols cfg])
                 [0..<rows cfg],
        g_moveSpeed := g_baseSpeed g * (1 + (w - 1) * 0.15),
        g_speedMultiplier := 1 + (w - 1) * 0.15,
        g_group := Some (0, 0, 0)\<rparr>"
  by (simp add: spawn_body_def Let_def fold_spawn_row)

lemma spawnWave_bnd_eq:
  "spawnWave_bnd w rnd g =
     g\<lparr>g_objs := spawned_objs config_bnd rnd (g_next g) 5 (g_objs g),
        g_next := g_next g + 55,
        g_aliens := map (\<lambda>row. [g_next g + row * 11..<g_next g + row * 11 + 11]) [0..<5],
        g_direction := 1,
        g_moveSpeed := g_baseSpeed g * (1 + (w - 1) * 0.15),
        g_speedMultiplier := 1 + (w - 1) * 0.15,
        g_group := Some (0, 0, 0)\<rparr>"
  by (simp add: spawnWave_bnd_def spawn_body_eq clear_bnd_def config_bnd_def)

lemma spawnWave_cyc_eq:
  "spawnWave_cyc w rnd g =
     g\<lparr>g_objs := spawned_objs config_cyc rnd (g_next g) 5 (g_objs g),
        g_next := g_next g + 55,
        g_aliens := map (\<lambda>row. [g_next g + row * 11..<g_next g + row * 11 + 11]) [0..<5],
        g_direction := -1,
        g_moveSpeed := g_baseSpeed g * (1 + (w - 1) * 0.15),
        g_speedMultiplier := 1 + (w - 1) * 0.15,
        g_group := Some (0, 0, 0),
        currentHorizontalPosition := 0,
        dropCount := 0\<rparr>"
  by (simp add: spawnWave_cyc_def spawn_body_eq clear_cyc_def config_cyc_def)

lemma spawned_objs_alive:
  "n \<le> r \<Longrightarrow> r < n + m * cols cfg \<Longrightarrow> a_isAlive (spawned_objs cfg rnd n m objs r)"
  by (simp add: spawned_objs_def spawned_alien_def)

lemma concat_blocks_5_11:
  "concat (map (\<lambda>row. [n + row * 11..<n + row * 11 + 11]) [0..<5]) = [n..<n + 55]"
  using concat_blocks[of n 11 5] by simp

lemma filter_all: "(\<And>x. x \<in> set xs \<Longrightarrow> P x) \<Longrightarrow> filter P xs = xs"
  by (induction xs) simp_all

lemma getAliveAliens_spawn_bnd:
  "getAliveAliens (spawnWave_bnd w rnd g) = [g_next g..<g_next g + 55]"
  unfolding getAliveAliens_def spawnWave_bnd_eq
  by (simp add: concat_blocks_5_11 del: upt_Suc)
     (rule filter_all, simp add: isAliveRef_def spawned_objs_alive config_bnd_def)

lemma getAliveAliens_spawn_cyc:
  "getAliveAliens (spawnWave_cyc w rnd g) = [g_next g..<g_next g + 55]"
  unfolding getAliveAliens_def spawnWave_cyc_eq
  by (simp add: concat_blocks_5_11 del: upt_Suc)
     (rule filter_all, simp add: isAliveRef_def spawned_objs_alive config_cyc_def)

lemma spawn_bnd_fields:
  "g_group (spawnWave_bnd w rnd g) = Some (0, 0, 0)"
  "g_aliens (spawnWave_bnd w rnd g) \<noteq> []"
  "g_direction (spawnWave_bnd w rnd g) = 1"
  "g_moveSpeed (spawnWave_bnd w rnd g) = g_baseSpeed g * (1 + (w - 1) * 0.15)"
  "g_baseSpeed (spawnWave_bnd w rnd g) = g_baseSpeed g"
  "g_speedMultiplier (spawnWave_bnd w rnd g) = 1 + (w - 1) * 0.15"
  "g_dropDistance (spawnWave_bnd w rnd g) = g_dropDistance g"
  "boundaryX (spawnWave_bnd w rnd g) = boundaryX g"
  by (simp_all add: spawnWave_bnd_eq upt_rec)

lemma spawn_cyc_fields:
  "g_group (spawnWave_cyc w rnd g) = Some (0, 0, 0)"
  "g_aliens (spawnWave_cyc w rnd g) \<noteq> []"
  "g_direction (spawnWave_cyc w rnd g) = -1"
  "g_moveSpeed (spawnWave_cyc w rnd g) = g_baseSpeed g * (1 + (w - 1) * 0.15)"
  "g_baseSpeed (spawnWave_cyc w rnd g) = g_baseSpeed g"
  "g_speedMultiplier (spawnWave_cyc w rnd g) = 1 + (w - 1) * 0.15"
  "g_dropDistance (spawnWave_cyc w rnd g) = g_dropDistance g"
  "horizontalLimit (spawnWave_cyc w rnd g) = horizontalLimit g"
  "currentHorizontalPosition (spawnWave_cyc w rnd g) = 0"
  "dropCount (spawnWave_cyc w rnd g) = 0"
  "maxDrops (spawnWave_cyc w rnd g) = maxDrops g"
  by (simp_all add: spawnWave_cyc_eq upt_rec)

lemma spawn_bnd_x:
  "r < 55 \<Longrightarrow> vx (getWorldPosition (spawnWave_bnd w rnd (AlienGrid_bnd objs 0)) r)
      = -6 + real (r mod 11) * 1.2"
  by (simp add: spawnWave_bnd_eq getWorldPosition_def AlienGrid_bnd_def spawned_objs_def
                spawned_alien_def config_bnd_def vadd_def vx_def)

section \<open>One update of the cycle-counted formation\<close>

lemma fold_drop_fields:
  "g_next (fold drop_originalY xs g) = g_next g"
  "g_aliens (fold drop_originalY xs g) = g_aliens g"
  "g_direction (fold drop_originalY xs g) = g_direction g"
  "g_moveSpeed (fold drop_originalY xs g) = g_moveSpeed g"
  "g_dropDistance (fold drop_originalY xs g) = g_dropDistance g"
  "g_baseSpeed (fold drop_originalY xs g) = g_baseSpeed g"
  "g_speedMultiplier (fold drop_originalY xs g) = g_speedMultiplier g"
  "g_wiggleTime (fold drop_originalY xs g) = g_wiggleTime g"
  "g_wiggleAmount (fold drop_originalY xs g) = g_wiggleAmount g"
  "g_group (fold drop_originalY xs g) = g_group g"
  "horizontalLimit (fold drop_originalY xs g) = horizontalLimit g"
  "currentHorizontalPosition (fold drop_originalY xs g) = currentHorizontalPosition g"
  "dropCount (fold drop_originalY xs g) = dropCount g"
  "maxDrops (fold drop_originalY xs g) = maxDrops g"
  "a_isAlive (g_objs (fold drop_originalY xs g) r) = a_isAlive (g_objs g r)"
  "a_points (g_objs (fold drop_originalY xs g) r) = a_points (g_objs g r)"
  by (induction xs arbitrary: g; simp add: drop_originalY_def)+

lemma update_cyc_reverse:
  assumes "g_group g = Some gp" "g_aliens g \<noteq> []" "dropCount g < maxDrops g" "reverses_cyc g"
  shows "fst (update_cyc dt g) = False"
    and "g_direction (snd (update_cyc dt g)) = - g_direction g"
    and "g_moveSpeed (snd (update_cyc dt g)) = g_moveSpeed g"
    and "g_group (snd (update_cyc dt g))
           = Some (vadd (vadd gp (g_direction g * g_moveSpeed g, 0, 0)) (0, - g_dropDistance g, 0))"
    and "dropCount (snd (update_cyc dt g)) = Suc (dropCount g)"
    and "currentHorizontalPosition (snd (update_cyc dt g)) = 0"
  using assms
  by (simp_all add: update_cyc_def reverses_cyc_def Let_def wiggle_pass_def fold_wiggle_fields
                    fold_wiggle_ext fold_drop_fields)

lemma update_cyc_advance:
  assumes "g_group g = Some gp" "g_aliens g \<noteq> []" "dropCount g < maxDrops g" "\<not> reverses_cyc g"
  shows "fst (update_cyc dt g) = False"
    and "g_direction (snd (update_cyc dt g)) = g_direction g"
    and "g_moveSpeed (snd (update_cyc dt g)) = g_moveSpeed g"
    and "g_group (snd (update_cyc dt g)) = Some (vadd gp (g_direction g * g_moveSpeed g, 0, 0))"
    and "dropCount (snd (update_cyc dt g)) = dropCount g"
    and "currentHorizontalPosition (snd (update_cyc dt g))
           = currentHorizontalPosition g + g_direction g * g_moveSpeed g"
  using assms
  by (simp_all add: update_cyc_def reverses_cyc_def Let_def wiggle_pass_def fold_wiggle_fields
                    fold_wiggle_ext fold_drop_fields)

lemma update_cyc_keeps:
  "g_aliens (snd (update_cyc dt g)) = g_aliens g"
  "g_moveSpeed (snd (update_cyc dt g)) = g_moveSpeed g"
  "g_baseSpeed (snd (update_cyc dt g)) = g_baseSpeed g"
  "g_speedMultiplier (snd (update_cyc dt g)) = g_speedMultiplier g"
  "g_dropDistance (snd (update_cyc dt g)) = g_dropDistance g"
  "horizontalLimit (snd (update_cyc dt g)) = horizontalLimit g"
  "maxDrops (snd (update_cyc dt g)) = maxDrops g"
  "g_next (snd (update_cyc dt g)) = g_next g"
  "a_isAlive (g_objs (snd (update_cyc dt g)) r) = a_isAlive (g_objs g r)"
  "a_points (g_objs (snd (update_cyc dt g)) r) = a_points (g_objs g r)"
  by (simp_all add: update_cyc_def Let_def wiggle_pass_def fold_wiggle_fields fold_wiggle_objs
                    fold_wiggle_ext fold_drop_fields)

lemma dropCount_update_cyc: "dropCount (snd (update_cyc dt g)) \<le> Suc (dropCount g)"
  by (simp add: update_cyc_def Let_def wiggle_pass_def fold_wiggle_fields fold_wiggle_ext
                fold_drop_fields)

lemma getAliveAliens_update_cyc [simp]:
  "getAliveAliens (snd (update_cyc dt g)) = getAliveAliens g"
  by (rule getAliveAliens_cong) (simp_all add: update_cyc_keeps)

section \<open>What a kill changes\<close>

lemma destroyAlien_fields:
  "g_aliens (snd (destroyAlien a g)) = g_aliens g"
  "g_next (snd (destroyAlien a g)) = g_next g"
  "g_direction (snd (destroyAlien a g)) = g_direction g"
  "g_baseSpeed (snd (destroyAlien a g)) = g_baseSpeed g"
  "g_speedMultiplier (snd (destroyAlien a g)) = g_speedMultiplier g"
  "g_dropDistance (snd (destroyAlien a g)) = g_dropDistance g"
  "g_group (snd (destroyAlien a g)) = g_group g"
  "grid.more (snd (destroyAlien a g)) = grid.more g"
  "a_isAlive (g_objs (snd (destroyAlien a g)) r) = (a_isAlive (g_objs g r) \<and> r \<noteq> a)"
  by (auto simp: destroyAlien_def Let_def)

lemma destroyAlien_ext:
  "boundaryX (snd (destroyAlien a b)) = boundaryX b"
  "horizontalLimit (snd (destroyAlien a c)) = horizontalLimit c"
  "currentHorizontalPosition (snd (destroyAlien a c)) = currentHorizontalPosition c"
  "dropCount (snd (destroyAlien a c)) = dropCount c"
  "maxDrops (snd (destroyAlien a c)) = maxDrops c"
  by (simp_all add: destroyAlien_def Let_def)

lemma getAliveAliens_destroy:
  "getAliveAliens (snd (destroyAlien a g)) = filter (\<lambda>r. r \<noteq> a) (getAliveAliens g)"
proof -
  have "isAliveRef (snd (destroyAlien a g)) = (\<lambda>r. isAliveRef g r \<and> r \<noteq> a)"
    by (rule ext) (simp add: isAliveRef_def destroyAlien_fields)
  then show ?thesis
    by (simp add: getAliveAliens_def destroyAlien_fields)
qed

lemma destroyAlien_speed:
  assumes "a_isAlive (g_objs g a)"
  shows "g_moveSpeed (snd (destroyAlien a g)) =
           (if 0 < length (filter (\<lambda>r. r \<noteq> a) (getAliveAliens g))
            then g_baseSpeed g * g_speedMultiplier g
                 * (1 + (55 - real (length (filter (\<lambda>r. r \<noteq> a) (getAliveAliens g)))) * 0.02)
            else g_moveSpeed g)"
proof -
  let ?g1 = "g\<lparr>g_objs := (g_objs g)(a := (g_objs g a)\<lparr>a_visible := False, a_isAlive := False\<rparr>)\<rparr>"
  have "isAliveRef ?g1 = (\<lambda>r. isAliveRef g r \<and> r \<noteq> a)"
    by (rule ext) (simp add: isAliveRef_def)
  then have "getAliveAliens ?g1 = filter (\<lambda>r. r \<noteq> a) (getAliveAliens g)"
    by (simp add: getAliveAliens_def)
  then show ?thesis
    using assms by (simp add: destroyAlien_def Let_def getAliveCount_def)
qed

lemma fold_destroy_alive:
  "getAliveAliens (fold (\<lambda>a g. snd (destroyAlien a g)) xs g)
     = filter (\<lambda>r. r \<notin> set xs) (getAliveAliens g)"
  by (induction xs arbitrary: g) (simp_all add: getAliveAliens_destroy conj_commute)

lemma fold_destroy_ext:
  "dropCount (fold (\<lambda>a g. snd (destroyAlien a g)) xs c) = dropCount c"
  "maxDrops (fold (\<lambda>a g. snd (destroyAlien a g)) xs c) = maxDrops c"
  "g_group (fold (\<lambda>a g. snd (destroyAlien a g)) xs g) = g_group g"
  "g_aliens (fold (\<lambda>a g. snd (destroyAlien a g)) xs g) = g_aliens g"
  by (induction xs arbitrary: c g; simp add: destroyAlien_ext destroyAlien_fields)+

section \<open>Hits of one tick\<close>

lemma update_shots_char:
  "update_shots now dt alive wpos targets s =
     (concat (map (hits_of now alive wpos targets (projectileLifetime s) (projectileSpeed s))
                  (rev (projectiles s))),
      s\<lparr>projectiles :=
          concat (map (survivors_of now alive wpos targets (projectileLifetime s) (projectileSpeed s))
                      (projectiles s))\<rparr>)"
  by (simp add: update_shots_def update_loop_char)

lemma find_hit_find:
  "find_hit alive wpos pos targets
     = find (\<lambda>t. alive t \<and> distanceTo pos (wpos t) < hitRadius) targets"
  by (induction targets) simp_all

lemma one_shot:
  "snd (shoot 1000 \<lparr>cam_position = (0, 0, 5), cam_forward = (0, 0, -1)\<rparr> ShootingSystem_init)
     = \<lparr>cooldown = 200, lastShotTime = 1000, projectileSpeed = 0.5, projectileLifetime = 2000,
        projectiles = [\<lparr>p_position = (0, -0.2, 4.5), p_direction = (0, 0, -1),
                        p_createdAt = 1000, p_isActive = True\<rparr>]\<rparr>"
  by (simp add: shoot_def ShootingSystem_init_def Let_def vadd_def multiplyScalar_def
                vx_def vy_def vz_def)

lemma hits_of_le_1: "length (hits_of now alive wpos targets lifetime speed p) \<le> Suc 0"
  by (simp add: hits_of_def split: option.splits)

lemma find_hit_Some:
  "find_hit alive wpos pos targets = Some t \<Longrightarrow>
   t \<in> set targets \<and> alive t \<and> distanceTo pos (wpos t) < hitRadius"
  by (induction targets) (auto split: if_splits)

lemma find_hit_None:
  "find_hit alive wpos pos targets = None \<longleftrightarrow>
   (\<forall>t \<in> set targets. alive t \<longrightarrow> hitRadius \<le> distanceTo pos (wpos t))"
  by (induction targets) (auto simp: not_less)

lemma hits_of_subset:
  "set (hits_of now alive wpos targets lifetime speed p) \<subseteq> set (filter alive targets)"
proof (cases "find_hit alive wpos (p_position (moved_of speed p)) targets")
  case None
  then show ?thesis by (simp add: hits_of_def)
next
  case (Some t)
  from find_hit_Some[OF Some] show ?thesis by (simp add: hits_of_def Some)
qed

lemma hit_or_survive:
  "length (hits_of now alive wpos targets lifetime speed p)
   + length (survivors_of now alive wpos targets lifetime speed p) \<le> 1"
  by (simp add: hits_of_def survivors_of_def split: option.splits)

lemma hit_or_survive_list:
  "length (concat (map (hits_of now alive wpos targets lifetime speed) (rev ps)))
   + length (concat (map (survivors_of now alive wpos targets lifetime speed) ps)) \<le> length ps"
proof (induction ps)
  case Nil
  then show ?case by simp
next
  case (Cons p ps)
  have "length (hits_of now alive wpos targets lifetime speed p)
        + length (survivors_of now alive wpos targets lifetime speed p) \<le> 1"
    by (rule hit_or_survive)
  with Cons show ?case by simp
qed

text \<open>
  C1, the claim as written fails.  Two shots fired 200 ms apart with no frame between
  them start at the same place and move in step; a live target within the radius of both
  is recorded by both, since \<open>update\<close> never changes a target's liveness flag and keeps
  no record of the targets already hit.  The hit list holds the target twice.
\<close>

theorem update_shots_same_target_twice:
  "fst (update_shots 1216 0.016 (\<lambda>t. True) (\<lambda>t. (0, -0.2, 4)) [0::nat]
         (snd (shoot 1200 \<lparr>cam_position = (0, 0, 5), cam_forward = (0, 0, -1)\<rparr>
            (snd (shoot 1000 \<lparr>cam_position = (0, 0, 5), cam_forward = (0, 0, -1)\<rparr>
               ShootingSystem_init))))) = [0, 0]
   \<and> \<not> distinct (fst (update_shots 1216 0.016 (\<lambda>t. True) (\<lambda>t. (0, -0.2, 4)) [0::nat]
         (snd (shoot 1200 \<lparr>cam_position = (0, 0, 5), cam_forward = (0, 0, -1)\<rparr>
            (snd (shoot 1000 \<lparr>cam_position = (0, 0, 5), cam_forward = (0, 0, -1)\<rparr>
               ShootingSystem_init))))))"
  by (simp add: update_shots_def shoot_def ShootingSystem_init_def Let_def removeProjectile_def
                vadd_def multiplyScalar_def vx_def vy_def vz_def distanceTo_def hitRadius_def)

text \<open>
  C1, as amended.  In one call of \<open>update\<close> each projectile records at most one hit.
  An active projectile whose elapsed lifetime is within the limit records the first
  target, in the order of the list passed in, that is alive and whose world position is
  at a distance below the hit radius from the projectile's new position, and nothing
  when there is none; an inactive or expired projectile records nothing.  The hit list
  is what the projectiles record, last projectile first.  The projectile list keeps the
  inactive projectiles as they are and the active, unexpired projectiles that recorded
  nothing, each moved one step; a projectile that records a hit is removed.  Nothing
  keeps a target from being recorded by several projectiles.
\<close>

theorem update_shots_one_hit_each:
  "update_shots now dt alive wpos targets s =
     (concat (map (\<lambda>p. if p_isActive p \<and> now - p_createdAt p \<le> projectileLifetime s
                        then (case find (\<lambda>t. alive t \<and>
                                      distanceTo (vadd (p_position p)
                                                   (multiplyScalar (p_direction p) (projectileSpeed s)))
                                                 (wpos t) < hitRadius) targets of
                                None \<Rightarrow> [] | Some t \<Rightarrow> [t])
                        else [])
                  (rev (projectiles s))),
      s\<lparr>projectiles :=
          concat (map (\<lambda>p. if \<not> p_isActive p then [p]
                            else if now - p_createdAt p > projectileLifetime s then []
                            else (case find (\<lambda>t. alive t \<and>
                                      distanceTo (vadd (p_position p)
                                                   (multiplyScalar (p_direction p) (projectileSpeed s)))
                                                 (wpos t) < hitRadius) targets of
                                    None \<Rightarrow> [p\<lparr>p_position := vadd (p_position p)
                                                   (multiplyScalar (p_direction p) (projectileSpeed s))\<rparr>]
                                  | Some t \<Rightarrow> []))
                      (projectiles s))\<rparr>)
   \<and> length (fst (update_shots now dt alive wpos targets s))
       + length (projectiles (snd (update_shots now dt alive wpos targets s)))
       \<le> length (projectiles s)"
proof -
  have h: "hits_of now alive wpos targets (projectileLifetime s) (projectileSpeed s)
         = (\<lambda>p. if p_isActive p \<and> now - p_createdAt p \<le> projectileLifetime s
                        then (case find (\<lambda>t. alive t \<and>
                                      distanceTo (vadd (p_position p)
                                                   (multiplyScalar (p_direction p) (projectileSpeed s)))
                                                 (wpos t) < hitRadius) targets of
                                None \<Rightarrow> [] | Some t \<Rightarrow> [t])
                        else [])"
    by (rule ext) (simp add: hits_of_def moved_of_def find_hit_find cong: option.case_cong)
  have v: "survivors_of now alive wpos targets (projectileLifetime s) (projectileSpeed s)
         = (\<lambda>p. if \<not> p_isActive p then [p]
                            else if now - p_createdAt p > projectileLifetime s then []
                            else (case find (\<lambda>t. alive t \<and>
                                      distanceTo (vadd (p_position p)
                                                   (multiplyScalar (p_direction p) (projectileSpeed s)))
                                                 (wpos t) < hitRadius) targets of
                                    None \<Rightarrow> [p\<lparr>p_position := vadd (p_position p)
                                                   (multiplyScalar (p_direction p) (projectileSpeed s))\<rparr>]
                                  | Some t \<Rightarrow> []))"
    by (rule ext) (simp add: survivors_of_def moved_of_def find_hit_find cong: option.case_cong)
  have c: "length (fst (update_shots now dt alive wpos targets s))
       + length (projectiles (snd (update_shots now dt alive wpos targets s)))
       \<le> length (projectiles s)"
    using hit_or_survive_list[of now alive wpos targets "projectileLifetime s"
                                  "projectileSpeed s" "projectiles s"]
    by (simp add: update_shots_char)
  have e: "update_shots now dt alive wpos targets s =
     (concat (map (hits_of now alive wpos targets (projectileLifetime s) (projectileSpeed s))
                  (rev (projectiles s))),
      s\<lparr>projectiles :=
          concat (map (survivors_of now alive wpos targets (projectileLifetime s) (projectileSpeed s))
                      (projectiles s))\<rparr>)"
    by (rule update_shots_char)
  show ?thesis
    using e c unfolding h v by blast
qed

section \<open>Projectile expiry\<close>

lemma survivors_out_of_range:
  assumes "p_isActive p"
    and "\<forall>t \<in> set targets. alive t \<longrightarrow> hitRadius \<le> distanceTo (p_position (moved_of speed p)) (wpos t)"
  shows "survivors_of now alive wpos targets lifetime speed p
           = (if now - p_createdAt p \<le> lifetime then [moved_of speed p] else [])"
    and "hits_of now alive wpos targets lifetime speed p = []"
proof -
  have "find_hit alive wpos (p_position (moved_of speed p)) targets = None"
    using assms(2) by (simp add: find_hit_None)
  then show "survivors_of now alive wpos targets lifetime speed p
           = (if now - p_createdAt p \<le> lifetime then [moved_of speed p] else [])"
    and "hits_of now alive wpos targets lifetime speed p = []"
    using assms(1) by (simp_all add: survivors_of_def hits_of_def)
qed

lemma concat_map_if:
  "concat (map (\<lambda>p. if P p then [f p] else []) ps) = map f (filter P ps)"
  by (induction ps) simp_all

text \<open>
  C7, the claim as written fails.  A projectile created at 1000 and updated at 3000 has
  lived exactly the configured 2000 ms and is still in the list: the test is
  \<open>now - createdAt > projectileLifetime\<close>.
\<close>

theorem projectile_kept_at_lifetime:
  "3000 - p_createdAt (hd (projectiles (snd (shoot 1000 \<lparr>cam_position = (0, 0, 5), cam_forward = (0, 0, -1)\<rparr>
               ShootingSystem_init)))) \<ge> projectileLifetime ShootingSystem_init
   \<and> length (projectiles (snd (update_shots 3000 0.016 (\<lambda>t::nat. True) (\<lambda>t. (0, 0, 0)) []
         (snd (shoot 1000 \<lparr>cam_position = (0, 0, 5), cam_forward = (0, 0, -1)\<rparr>
               ShootingSystem_init))))) = 1"
  by (simp add: update_shots_def shoot_def ShootingSystem_init_def Let_def removeProjectile_def)

lemma two_shots:
  "snd (shoot 1200 \<lparr>cam_position = (0, 0, 5), cam_forward = (0, 0, -1)\<rparr>
     (snd (update_shots 1032 0.016 (\<lambda>t::nat. True) (\<lambda>t. (0, -0.2, 4)) []
     (snd (update_shots 1016 0.016 (\<lambda>t::nat. True) (\<lambda>t. (0, -0.2, 4)) []
     (snd (shoot 1000 \<lparr>cam_position = (0, 0, 5), cam_forward = (0, 0, -1)\<rparr> ShootingSystem_init)))))))
   = \<lparr>cooldown = 200, lastShotTime = 1200, projectileSpeed = 0.5, projectileLifetime = 2000,
      projectiles = [\<lparr>p_position = (0, -0.2, 3.5), p_direction = (0, 0, -1), p_createdAt = 1000, p_isActive = True\<rparr>,
                     \<lparr>p_position = (0, -0.2, 4.5), p_direction = (0, 0, -1), p_createdAt = 1200, p_isActive = True\<rparr>]\<rparr>"
  by (simp add: one_shot update_shots_char survivors_of_def moved_of_def)
     (simp add: shoot_def Let_def vadd_def multiplyScalar_def vx_def vy_def vz_def)

text \<open>
  C7, as amended.  Take any projectile of the list that is active and, at its new
  position, at a distance of at least the hit radius from every live target, whatever
  the other projectiles of the list do in the same tick.  \<open>update\<close> keeps it, moved one
  step, when its elapsed lifetime is at most 2000 ms, and discards it when its elapsed
  lifetime exceeds 2000 ms; it records no hit for it.  The projectiles before and after
  it in the list fare as they would in lists of their own.  So the projectile is
  discarded at the first update at which its elapsed lifetime exceeds 2000 ms and never
  before.
\<close>

theorem projectile_expiry:
  assumes "projectileLifetime s = 2000"
    and "projectiles s = xs @ p # ys"
    and "p_isActive p"
    and "\<forall>t \<in> set targets. alive t \<longrightarrow>
           hitRadius \<le> distanceTo (vadd (p_position p)
                                      (multiplyScalar (p_direction p) (projectileSpeed s))) (wpos t)"
  shows "projectiles (snd (update_shots now dt alive wpos targets s))
           = projectiles (snd (update_shots now dt alive wpos targets (s\<lparr>projectiles := xs\<rparr>)))
             @ (if now - p_createdAt p \<le> 2000
                then [p\<lparr>p_position := vadd (p_position p)
                                         (multiplyScalar (p_direction p) (projectileSpeed s))\<rparr>]
                else [])
             @ projectiles (snd (update_shots now dt alive wpos targets (s\<lparr>projectiles := ys\<rparr>)))
       \<and> fst (update_shots now dt alive wpos targets s)
           = fst (update_shots now dt alive wpos targets (s\<lparr>projectiles := ys\<rparr>))
             @ fst (update_shots now dt alive wpos targets (s\<lparr>projectiles := xs\<rparr>))"
proof -
  have far: "\<forall>t \<in> set targets. alive t \<longrightarrow>
           hitRadius \<le> distanceTo (p_position (moved_of (projectileSpeed s) p)) (wpos t)"
    using assms(4) by (simp add: moved_of_def)
  note o = survivors_out_of_range[OF assms(3) far, of now "projectileLifetime s"]
  have m: "moved_of (projectileSpeed s) p
         = p\<lparr>p_position := vadd (p_position p)
                                (multiplyScalar (p_direction p) (projectileSpeed s))\<rparr>"
    by (simp add: moved_of_def)
  show ?thesis
    by (simp add: update_shots_char assms(1,2) o[unfolded assms(1)] m)
qed

theorem projectile_expiry_witness:
  "fst (update_shots 3000 0.016 (\<lambda>t::nat. True) (\<lambda>t. (0, -0.2, 4)) [7]
     (snd (shoot 1200 \<lparr>cam_position = (0, 0, 5), cam_forward = (0, 0, -1)\<rparr>
     (snd (update_shots 1032 0.016 (\<lambda>t::nat. True) (\<lambda>t. (0, -0.2, 4)) []
     (snd (update_shots 1016 0.016 (\<lambda>t::nat. True) (\<lambda>t. (0, -0.2, 4)) []
     (snd (shoot 1000 \<lparr>cam_position = (0, 0, 5), cam_forward = (0, 0, -1)\<rparr> ShootingSystem_init))))))))) = [7]
   \<and> projectiles (snd (update_shots 3000 0.016 (\<lambda>t::nat. True) (\<lambda>t. (0, -0.2, 4)) [7]
     (snd (shoot 1200 \<lparr>cam_position = (0, 0, 5), cam_forward = (0, 0, -1)\<rparr>
     (snd (update_shots 1032 0.016 (\<lambda>t::nat. True) (\<lambda>t. (0, -0.2, 4)) []
     (snd (update_shots 1016 0.016 (\<lambda>t::nat. True) (\<lambda>t. (0, -0.2, 4)) []
     (snd (shoot 1000 \<lparr>cam_position = (0, 0, 5), cam_forward = (0, 0, -1)\<rparr> ShootingSystem_init))))))))))
      = [\<lparr>p_position = (0, -0.2, 3), p_direction = (0, 0, -1), p_createdAt = 1000, p_isActive = True\<rparr>]
   \<and> fst (update_shots 3001 0.016 (\<lambda>t::nat. True) (\<lambda>t. (0, -0.2, 4)) [7]
     (snd (shoot 1200 \<lparr>cam_position = (0, 0, 5), cam_forward = (0, 0, -1)\<rparr>
     (snd (update_shots 1032 0.016 (\<lambda>t::nat. True) (\<lambda>t. (0, -0.2, 4)) []
     (snd (update_shots 1016 0.016 (\<lambda>t::nat. True) (\<lambda>t. (0, -0.2, 4)) []
     (snd (shoot 1000 \<lparr>cam_position = (0, 0, 5), cam_forward = (0, 0, -1)\<rparr> ShootingSystem_init))))))))) = [7]
   \<and> projectiles (snd (update_shots 3001 0.016 (\<lambda>t::nat. True) (\<lambda>t. (0, -0.2, 4)) [7]
     (snd (shoot 1200 \<lparr>cam_position = (0, 0, 5), cam_forward = (0, 0, -1)\<rparr>
     (snd (update_shots 1032 0.016 (\<lambda>t::nat. True) (\<lambda>t. (0, -0.2, 4)) []
     (snd (update_shots 1016 0.016 (\<lambda>t::nat. True) (\<lambda>t. (0, -0.2, 4)) []
     (snd (shoot 1000 \<lparr>cam_position = (0, 0, 5), cam_forward = (0, 0, -1)\<rparr> ShootingSystem_init)))))))))) = []"
proof -
  let ?p1 = "\<lparr>p_position = (0, -0.2, 3.5), p_direction = (0, 0, -1), p_createdAt = 1000, p_isActive = True\<rparr>"
  let ?p2 = "\<lparr>p_position = (0, -0.2, 4.5), p_direction = (0, 0, -1), p_createdAt = 1200, p_isActive = True\<rparr>"
  let ?S = "\<lparr>cooldown = 200, lastShotTime = 1200, projectileSpeed = 0.5, projectileLifetime = 2000,
             projectiles = [?p1, ?p2]\<rparr>"
  let ?A = "\<lambda>t::nat. True" and ?W = "\<lambda>t::nat. (0, -0.2, 4) :: vec3"
  have h1: "projectileLifetime ?S = 2000" by simp
  have h2: "projectiles ?S = [] @ ?p1 # [?p2]" by simp
  have h3: "p_isActive ?p1" by simp
  have h4: "\<forall>t \<in> set [7::nat]. ?A t \<longrightarrow>
           hitRadius \<le> distanceTo (vadd (p_position ?p1)
                                      (multiplyScalar (p_direction ?p1) (projectileSpeed ?S))) (?W t)"
    by (simp add: distanceTo_def vadd_def multiplyScalar_def vx_def vy_def vz_def hitRadius_def)
  have near: "distanceTo (0, - (1 / 5), 4) (0, - (1 / 5), 4) < hitRadius"
    by (simp add: distanceTo_def vx_def vy_def vz_def hitRadius_def)
  have r: "update_shots 3000 0.016 ?A ?W [7] (?S\<lparr>projectiles := [?p2]\<rparr>)
             = ([7], ?S\<lparr>projectiles := []\<rparr>)"
          "update_shots 3001 0.016 ?A ?W [7] (?S\<lparr>projectiles := [?p2]\<rparr>)
             = ([7], ?S\<lparr>projectiles := []\<rparr>)"
          "update_shots 3000 0.016 ?A ?W [7] (?S\<lparr>projectiles := []\<rparr>)
             = ([], ?S\<lparr>projectiles := []\<rparr>)"
          "update_shots 3001 0.016 ?A ?W [7] (?S\<lparr>projectiles := []\<rparr>)
             = ([], ?S\<lparr>projectiles := []\<rparr>)"
    using near
    by (simp_all add: update_shots_char survivors_of_def hits_of_def moved_of_def vadd_def
                      multiplyScalar_def vx_def vy_def vz_def)
  note a = projectile_expiry[OF h1 h2 h3 h4, of 3000 "0.016"]
  note b = projectile_expiry[OF h1 h2 h3 h4, of 3001 "0.016"]
  show ?thesis
    unfolding two_shots using a b r
    by (simp add: vadd_def multiplyScalar_def vx_def vy_def vz_def)
qed

section \<open>Score and combo\<close>

text \<open>
  C3, the claim as written fails.  The first hit of a fresh HUD finds a combo count of 0
  and still scores its points once, where \<open>points \<times> min(count, 5)\<close> would be 0; and the
  second hit scores with the count it finds (1), not with the count it leaves (2).
\<close>

theorem addScore_first_hit:
  "targetScore (addScore 1000 30 HUD_init) = 30
   \<and> targetScore (addScore 1000 30 HUD_init)
       \<noteq> targetScore HUD_init + 30 * min (comboCount HUD_init) 5
   \<and> targetScore (addScore 1500 20 (addScore 1000 30 HUD_init)) = 50
   \<and> targetScore (addScore 1500 20 (addScore 1000 30 HUD_init))
       \<noteq> targetScore (addScore 1000 30 HUD_init)
          + 20 * min (comboCount (addScore 1500 20 (addScore 1000 30 HUD_init))) 5"
  by (simp add: addScore_def incrementCombo_def animate_def HUD_init_def Let_def)

text \<open>
  C3, as amended.  A hit adds \<open>points \<times> max(1, min(c, 5))\<close> to the score, where \<open>c\<close> is the
  combo count before the hit; the hit then raises the combo count by one and replaces
  the pending reset timer by one due 2000 ms later, whose callback sets the count to 0.
  Before that time the count stays.
\<close>

theorem addScore_combo:
  "targetScore (addScore now points h) = targetScore h + points * max 1 (min (comboCount h) 5)
   \<and> comboCount (addScore now points h) = comboCount h + 1
   \<and> comboTimer (addScore now points h) = Some (now + comboTimeout h)
   \<and> (comboTimeout h = 2000 \<longrightarrow> now + 2000 \<le> t \<longrightarrow>
        comboCount (hud_timers t (addScore now points h)) = 0)
   \<and> (comboTimeout h = 2000 \<longrightarrow> t < now + 2000 \<longrightarrow>
        comboCount (hud_timers t (addScore now points h)) = comboCount h + 1)"
  by (simp add: addScore_def incrementCombo_def animate_def hud_timers_def resetCombo_def Let_def)

theorem addScore_combo_witness:
  "comboTimeout (addScore 1000 30 HUD_init) = 2000
   \<and> comboCount (addScore 1000 30 HUD_init) = 1
   \<and> targetScore (addScore 1500 20 (addScore 1000 30 HUD_init)) = 30 + 20 * 1
   \<and> comboCount (addScore 1500 20 (addScore 1000 30 HUD_init)) = 2
   \<and> comboCount (hud_timers 3499 (addScore 1500 20 (addScore 1000 30 HUD_init))) = 2
   \<and> comboCount (hud_timers 3500 (addScore 1500 20 (addScore 1000 30 HUD_init))) = 0"
proof -
  have h: "comboTimeout (addScore 1000 30 HUD_init) = 2000"
    by (simp add: addScore_def incrementCombo_def animate_def HUD_init_def Let_def)
  have c: "comboCount (addScore 1000 30 HUD_init) = 1" "targetScore (addScore 1000 30 HUD_init) = 30"
    by (simp_all add: addScore_def incrementCombo_def animate_def HUD_init_def Let_def)
  show ?thesis
    using addScore_combo[of 1500 20 "addScore 1000 30 HUD_init" 3499]
          addScore_combo[of 1500 20 "addScore 1000 30 HUD_init" 3500] h c
    by simp
qed

section \<open>Destroying a dead alien\<close>

lemma destroyAlien_kills: "\<not> a_isAlive (g_objs (snd (destroyAlien a g)) a)"
  by (simp add: destroyAlien_def Let_def)

text \<open>
  C9.  \<open>destroyAlien\<close> on an alien whose liveness flag is already false returns 0 and
  leaves the whole grid state, the store of aliens included, as it was.  The method is
  the same in both variants of the grid, and the statement holds for both.
\<close>

theorem destroyAlien_dead:
  assumes "\<not> a_isAlive (g_objs g a)"
  shows "destroyAlien a g = (0, g)"
  using assms by (simp add: destroyAlien_def)

theorem destroyAlien_dead_witness:
  "\<not> a_isAlive (g_objs (snd (destroyAlien 3 (spawnWave_bnd 1 (\<lambda>r c. 0) (AlienGrid_bnd (\<lambda>r. createAlien 1 0) 0)))) 3)
   \<and> destroyAlien 3 (snd (destroyAlien 3 (spawnWave_bnd 1 (\<lambda>r c. 0) (AlienGrid_bnd (\<lambda>r. createAlien 1 0) 0))))
     = (0, snd (destroyAlien 3 (spawnWave_bnd 1 (\<lambda>r c. 0) (AlienGrid_bnd (\<lambda>r. createAlien 1 0) 0))))
   \<and> \<not> a_isAlive (g_objs (snd (destroyAlien 3 (spawnWave_cyc 1 (\<lambda>r c. 0) (AlienGrid_cyc (\<lambda>r. createAlien 1 0) 0)))) 3)
   \<and> destroyAlien 3 (snd (destroyAlien 3 (spawnWave_cyc 1 (\<lambda>r c. 0) (AlienGrid_cyc (\<lambda>r. createAlien 1 0) 0))))
     = (0, snd (destroyAlien 3 (spawnWave_cyc 1 (\<lambda>r c. 0) (AlienGrid_cyc (\<lambda>r. createAlien 1 0) 0))))"
  using destroyAlien_dead[OF destroyAlien_kills, of 3 "spawnWave_bnd 1 (\<lambda>r c. 0) (AlienGrid_bnd (\<lambda>r. createAlien 1 0) 0)"]
        destroyAlien_dead[OF destroyAlien_kills, of 3 "spawnWave_cyc 1 (\<lambda>r c. 0) (AlienGrid_cyc (\<lambda>r. createAlien 1 0) 0)"]
        destroyAlien_kills[of 3 "spawnWave_bnd 1 (\<lambda>r c. 0) (AlienGrid_bnd (\<lambda>r. createAlien 1 0) 0)"]
        destroyAlien_kills[of 3 "spawnWave_cyc 1 (\<lambda>r c. 0) (AlienGrid_cyc (\<lambda>r. createAlien 1 0) 0)"]
  by blast

section \<open>Update without a formation\<close>

text \<open>
  C10.  In both variants \<open>update(deltaTime)\<close> returns false and changes nothing when
  there is no group: in the state the constructor leaves, and in every state \<open>clear()\<close>
  leaves, for every \<open>deltaTime\<close>.
\<close>

theorem update_without_formation:
  "(g_group b = None \<longrightarrow> update_bnd dt b = (False, b))
   \<and> (g_group c = None \<longrightarrow> update_cyc dt c = (False, c))
   \<and> update_bnd dt (clear_bnd b') = (False, clear_bnd b')
   \<and> update_cyc dt (clear_cyc c') = (False, clear_cyc c')
   \<and> update_bnd dt (AlienGrid_bnd objs n) = (False, AlienGrid_bnd objs n)
   \<and> update_cyc dt (AlienGrid_cyc objs n) = (False, AlienGrid_cyc objs n)"
  by (simp add: update_bnd_def update_cyc_def clear_bnd_def clear_cyc_def AlienGrid_bnd_def
                AlienGrid_cyc_def)

theorem update_without_formation_witness:
  "g_group (clear_bnd (spawnWave_bnd 1 (\<lambda>r c. 0) (AlienGrid_bnd (\<lambda>r. createAlien 1 0) 0))) = None
   \<and> update_bnd 0.016 (clear_bnd (spawnWave_bnd 1 (\<lambda>r c. 0) (AlienGrid_bnd (\<lambda>r. createAlien 1 0) 0)))
      = (False, clear_bnd (spawnWave_bnd 1 (\<lambda>r c. 0) (AlienGrid_bnd (\<lambda>r. createAlien 1 0) 0)))
   \<and> g_group (clear_cyc (spawnWave_cyc 1 (\<lambda>r c. 0) (AlienGrid_cyc (\<lambda>r. createAlien 1 0) 0))) = None
   \<and> update_cyc 0.016 (clear_cyc (spawnWave_cyc 1 (\<lambda>r c. 0) (AlienGrid_cyc (\<lambda>r. createAlien 1 0) 0)))
      = (False, clear_cyc (spawnWave_cyc 1 (\<lambda>r c. 0) (AlienGrid_cyc (\<lambda>r. createAlien 1 0) 0)))"
proof -
  have hb: "g_group (clear_bnd (spawnWave_bnd 1 (\<lambda>r c. 0) (AlienGrid_bnd (\<lambda>r. createAlien 1 0) 0))) = None"
    by (simp add: clear_bnd_def)
  have hc: "g_group (clear_cyc (spawnWave_cyc 1 (\<lambda>r c. 0) (AlienGrid_cyc (\<lambda>r. createAlien 1 0) 0))) = None"
    by (simp add: clear_cyc_def)
  show ?thesis
    using update_without_formation
       [of "clear_bnd (spawnWave_bnd 1 (\<lambda>r c. 0) (AlienGrid_bnd (\<lambda>r. createAlien 1 0) 0))" "0.016"
           "clear_cyc (spawnWave_cyc 1 (\<lambda>r c. 0) (AlienGrid_cyc (\<lambda>r. createAlien 1 0) 0))"]
       hb hc
    by blast
qed

section \<open>The first updates of a spawned wave\<close>

lemma vx_world:
  "g_group g = Some gp \<Longrightarrow> vx (getWorldPosition g r) = vx gp + vx (a_position (g_objs g r))"
  by (simp add: getWorldPosition_def vadd_def vx_def)

lemma length_filter_neq:
  "distinct xs \<Longrightarrow> a \<in> set xs \<Longrightarrow> length (filter (\<lambda>r. r \<noteq> a) xs) = length xs - 1"
proof (induction xs)
  case Nil
  then show ?case by simp
next
  case (Cons x xs)
  show ?case
  proof (cases "x = a")
    case True
    then have "a \<notin> set xs" using Cons.prems by simp
    then have "filter (\<lambda>r. r \<noteq> a) xs = xs" by (induction xs) auto
    then show ?thesis using True by simp
  next
    case False
    then have "a \<in> set xs" using Cons.prems by simp
    then have "0 < length xs" by (cases xs) auto
    then show ?thesis using Cons False \<open>a \<in> set xs\<close> by simp
  qed
qed

lemma spawn_bnd_reverses:
  "needsToChangeDirection (spawnWave_bnd w rnd (AlienGrid_bnd objs 0))"
proof -
  let ?B = "spawnWave_bnd w rnd (AlienGrid_bnd objs 0)"
  have "(10::nat) \<in> set (getAliveAliens ?B)"
    by (simp add: getAliveAliens_spawn_bnd AlienGrid_bnd_def)
  moreover have "vx (getWorldPosition ?B 10) = -6 + real (10 mod 11) * 1.2"
    by (rule spawn_bnd_x) simp
  then have "vx (getWorldPosition ?B 10) \<ge> boundaryX ?B"
    by (simp add: spawn_bnd_fields AlienGrid_bnd_def)
  ultimately show ?thesis
    by (auto simp: needsToChangeDirection_iff spawn_bnd_fields)
qed

lemma spawn_bnd_reverses_again:
  "needsToChangeDirection (snd (update_bnd dt (spawnWave_bnd w rnd (AlienGrid_bnd objs 0))))"
proof -
  let ?B = "spawnWave_bnd w rnd (AlienGrid_bnd objs 0)"
  let ?B1 = "snd (update_bnd dt ?B)"
  have g: "g_group ?B = Some (0, 0, 0)" "g_aliens ?B \<noteq> []"
    by (simp_all add: spawn_bnd_fields)
  have d: "g_direction ?B1 = -1"
    using update_bnd_reverse(1)[OF g spawn_bnd_reverses] by (simp add: spawn_bnd_fields)
  have gp: "g_group ?B1 = Some (vadd (0, 0, 0) (0, - g_dropDistance ?B, 0))"
    using update_bnd_reverse(3)[OF g spawn_bnd_reverses] .
  have "(0::nat) \<in> set (getAliveAliens ?B1)"
    by (simp add: getAliveAliens_spawn_bnd AlienGrid_bnd_def)
  moreover have "vx (vadd (0, 0, 0) (0, - g_dropDistance ?B, 0)) = vx (0, 0, 0)"
    by (simp add: vadd_def vx_def)
  then have "vx (getWorldPosition ?B1 0) = vx (getWorldPosition ?B 0)"
    by (simp add: vx_world[OF gp] vx_world[OF g(1)] update_bnd_keeps)
  moreover have "vx (getWorldPosition ?B 0) = -6 + real (0 mod 11) * 1.2"
    by (rule spawn_bnd_x) simp
  ultimately have "vx (getWorldPosition ?B1 0) \<le> - boundaryX ?B1"
    by (simp add: update_bnd_keeps spawn_bnd_fields AlienGrid_bnd_def)
  moreover have "(0::nat) \<in> set (getAliveAliens ?B1)"
    by (simp add: getAliveAliens_spawn_bnd AlienGrid_bnd_def)
  ultimately show ?thesis
    using d by (auto simp: needsToChangeDirection_iff)
qed

lemma spawn_cyc_advances:
  "\<not> reverses_cyc (spawnWave_cyc 1 rnd (AlienGrid_cyc objs 0))"
  by (simp add: reverses_cyc_def spawn_cyc_fields AlienGrid_cyc_def)

lemma spawn_cyc_first_update:
  "g_group (snd (update_cyc dt (spawnWave_cyc 1 rnd (AlienGrid_cyc objs 0)))) = Some (-0.02, 0, 0)"
proof -
  let ?C = "spawnWave_cyc 1 rnd (AlienGrid_cyc objs 0)"
  have g: "g_group ?C = Some (0, 0, 0)" "g_aliens ?C \<noteq> []" "dropCount ?C < maxDrops ?C"
    by (simp_all add: spawn_cyc_fields AlienGrid_cyc_def)
  have "g_group (snd (update_cyc dt ?C))
          = Some (vadd (0, 0, 0) (g_direction ?C * g_moveSpeed ?C, 0, 0))"
    by (rule update_cyc_advance(4)[OF g spawn_cyc_advances])
  also have "\<dots> = Some (-0.02, 0, 0)"
    by (simp add: spawn_cyc_fields AlienGrid_cyc_def vadd_def vx_def vy_def vz_def)
  finally show ?thesis .
qed

section \<open>Motion per tick\<close>

lemma survivors_moved:
  "p_isActive p \<Longrightarrow>
   set (survivors_of now alive wpos targets lifetime speed p)
     \<subseteq> {p\<lparr>p_position := vadd (p_position p) (multiplyScalar (p_direction p) speed)\<rparr>}"
  by (auto simp: survivors_of_def moved_of_def split: option.splits)

lemma update_cyc_group_x:
  assumes "g_group c = Some gq" "g_aliens c \<noteq> []" "dropCount c < maxDrops c"
  shows "map_option vx (g_group (snd (update_cyc dt c)))
           = Some (vx gq + g_direction c * g_moveSpeed c)"
proof (cases "reverses_cyc c")
  case True
  show ?thesis
    by (simp add: update_cyc_reverse(4)[OF assms True] vadd_def vx_def)
next
  case False
  show ?thesis
    by (simp add: update_cyc_advance(4)[OF assms False] vadd_def vx_def)
qed

lemma update_bnd_group:
  assumes "g_group b = Some gp" "g_aliens b \<noteq> []"
  shows "g_group (snd (update_bnd dt b))
           = Some (vadd gp (if needsToChangeDirection b then (0, - g_dropDistance b, 0)
                            else (g_direction b * g_moveSpeed b, 0, 0)))"
proof (cases "needsToChangeDirection b")
  case True
  show ?thesis by (simp add: update_bnd_reverse(3)[OF assms True] True)
next
  case False
  show ?thesis by (simp add: update_bnd_advance(3)[OF assms False] False)
qed

text \<open>
  C4, the claim as written fails.  With \<open>deltaTime = 0.016\<close> the projectile fired from
  \<open>(0, -0.2, 4.5)\<close> along \<open>(0, 0, -1)\<close> is at \<open>(0, -0.2, 4)\<close> after one update, a step of
  the whole speed 0.5, where \<open>speed * deltaTime\<close> would put it at \<open>(0, -0.2, 4.492)\<close>; and
  the cycle-counted formation of wave 1 moves by \<open>direction * moveSpeed = -0.02\<close>, where
  \<open>direction * moveSpeed * deltaTime\<close> is \<open>-0.00032\<close>.
\<close>

theorem motion_ignores_deltaTime:
  "p_position (hd (projectiles (snd (update_shots 1016 0.016 (\<lambda>t::nat. True) (\<lambda>t. (0, 0, 0)) []
       (snd (shoot 1000 \<lparr>cam_position = (0, 0, 5), cam_forward = (0, 0, -1)\<rparr> ShootingSystem_init))))))
     = (0, -0.2, 4)
   \<and> p_position (hd (projectiles (snd (update_shots 1016 0.016 (\<lambda>t::nat. True) (\<lambda>t. (0, 0, 0)) []
       (snd (shoot 1000 \<lparr>cam_position = (0, 0, 5), cam_forward = (0, 0, -1)\<rparr> ShootingSystem_init))))))
     \<noteq> vadd (0, -0.2, 4.5) (multiplyScalar (0, 0, -1) (0.5 * 0.016))
   \<and> g_group (snd (update_cyc 0.016 (spawnWave_cyc 1 (\<lambda>row col. 0.5)
                                        (AlienGrid_cyc (\<lambda>r. createAlien 1 0) 0))))
     = Some (-0.02, 0, 0)
   \<and> g_group (snd (update_cyc 0.016 (spawnWave_cyc 1 (\<lambda>row col. 0.5)
                                        (AlienGrid_cyc (\<lambda>r. createAlien 1 0) 0))))
     \<noteq> Some (vadd (0, 0, 0)
          (g_direction (spawnWave_cyc 1 (\<lambda>row col. 0.5) (AlienGrid_cyc (\<lambda>r. createAlien 1 0) 0))
           * g_moveSpeed (spawnWave_cyc 1 (\<lambda>row col. 0.5) (AlienGrid_cyc (\<lambda>r. createAlien 1 0) 0))
           * 0.016, 0, 0))"
proof -
  let ?S = "snd (shoot 1000 \<lparr>cam_position = (0, 0, 5), cam_forward = (0, 0, -1)\<rparr> ShootingSystem_init)"
  let ?C = "spawnWave_cyc 1 (\<lambda>row col. 0.5) (AlienGrid_cyc (\<lambda>r. createAlien 1 0) 0)"
  have p: "p_position (hd (projectiles (snd (update_shots 1016 0.016 (\<lambda>t::nat. True)
                (\<lambda>t. (0, 0, 0)) [] ?S)))) = (0, -0.2, 4)"
    by (simp add: one_shot update_shots_char survivors_of_def moved_of_def vadd_def
                  multiplyScalar_def vx_def vy_def vz_def)
  have q: "vadd (0, -0.2, 4.5) (multiplyScalar (0, 0, -1) (0.5 * 0.016)) = (0, -0.2, 4.492)"
    by (simp add: vadd_def multiplyScalar_def vx_def vy_def vz_def)
  have g: "g_group (snd (update_cyc 0.016 ?C)) = Some (-0.02, 0, 0)"
    by (rule spawn_cyc_first_update)
  have h: "vadd (0, 0, 0) (g_direction ?C * g_moveSpeed ?C * 0.016, 0, 0) = (-0.00032, 0, 0)"
    by (simp add: spawn_cyc_fields AlienGrid_cyc_def vadd_def vx_def vy_def vz_def)
  show ?thesis
    unfolding p q g h by simp
qed

text \<open>
  C4, as amended.  The motion of one tick does not depend on the elapsed time passed to
  \<open>update\<close>: the projectile update gives the same result for every \<open>deltaTime\<close>, and an
  active projectile that stays in the list has moved by its direction times the
  projectile speed; the cycle-counted formation moves horizontally by
  \<open>direction * moveSpeed\<close> in every tick in which it moves at all; the boundary-based
  formation moves horizontally by \<open>direction * moveSpeed\<close> in a tick without reversal
  and drops by the drop distance, without horizontal motion, in a tick with one.
  \<open>deltaTime\<close> enters the wiggle animation only.
\<close>

theorem motion_per_tick:
  "update_shots now dt alive wpos targets s = update_shots now dt' alive wpos targets s
   \<and> projectiles (snd (update_shots now dt alive wpos targets s))
       = concat (map (survivors_of now alive wpos targets (projectileLifetime s) (projectileSpeed s))
                     (projectiles s))
   \<and> (p_isActive p \<longrightarrow>
        set (survivors_of now alive wpos targets (projectileLifetime s) (projectileSpeed s) p)
          \<subseteq> {p\<lparr>p_position := vadd (p_position p)
                                   (multiplyScalar (p_direction p) (projectileSpeed s))\<rparr>})
   \<and> (g_group c = Some gq \<and> g_aliens c \<noteq> [] \<and> dropCount c < maxDrops c \<longrightarrow>
        map_option vx (g_group (snd (update_cyc dt c)))
          = Some (vx gq + g_direction c * g_moveSpeed c))
   \<and> (g_group b = Some gp \<and> g_aliens b \<noteq> [] \<longrightarrow>
        g_group (snd (update_bnd dt b))
          = Some (vadd gp (if needsToChangeDirection b then (0, - g_dropDistance b, 0)
                           else (g_direction b * g_moveSpeed b, 0, 0))))"
proof (intro conjI impI)
  show "update_shots now dt alive wpos targets s = update_shots now dt' alive wpos targets s"
    by (simp add: update_shots_def)
  show "projectiles (snd (update_shots now dt alive wpos targets s))
       = concat (map (survivors_of now alive wpos targets (projectileLifetime s) (projectileSpeed s))
                     (projectiles s))"
    by (simp add: update_shots_char)
  show "set (survivors_of now alive wpos targets (projectileLifetime s) (projectileSpeed s) p)
          \<subseteq> {p\<lparr>p_position := vadd (p_position p)
                                   (multiplyScalar (p_direction p) (projectileSpeed s))\<rparr>}"
    if "p_isActive p"
    using that by (rule survivors_moved)
  show "map_option vx (g_group (snd (update_cyc dt c)))
          = Some (vx gq + g_direction c * g_moveSpeed c)"
    if "g_group c = Some gq \<and> g_aliens c \<noteq> [] \<and> dropCount c < maxDrops c"
    using that by (intro update_cyc_group_x) simp_all
  show "g_group (snd (update_bnd dt b))
          = Some (vadd gp (if needsToChangeDirection b then (0, - g_dropDistance b, 0)
                           else (g_direction b * g_moveSpeed b, 0, 0)))"
    if "g_group b = Some gp \<and> g_aliens b \<noteq> []"
    using that by (intro update_bnd_group) simp_all
qed

theorem motion_per_tick_witness:
  "map_option vx (g_group (snd (update_cyc 0.016 (spawnWave_cyc 1 (\<lambda>row col. 0.5)
                                        (AlienGrid_cyc (\<lambda>r. createAlien 1 0) 0)))))
     = Some (-0.02)
   \<and> map_option vx (g_group (snd (update_cyc 5 (spawnWave_cyc 1 (\<lambda>row col. 0.5)
                                        (AlienGrid_cyc (\<lambda>r. createAlien 1 0) 0)))))
     = Some (-0.02)
   \<and> g_group (snd (update_bnd 0.016 (spawnWave_bnd 1 (\<lambda>row col. 0.5)
                                        (AlienGrid_bnd (\<lambda>r. createAlien 1 0) 0))))
     = Some (0, -0.3, 0)
   \<and> g_group (snd (update_bnd 5 (spawnWave_bnd 1 (\<lambda>row col. 0.5)
                                        (AlienGrid_bnd (\<lambda>r. createAlien 1 0) 0))))
     = Some (0, -0.3, 0)
   \<and> projectiles (snd (update_shots 1016 0.016 (\<lambda>t::nat. True) (\<lambda>t. (0, 0, 0)) []
       (snd (shoot 1000 \<lparr>cam_position = (0, 0, 5), cam_forward = (0, 0, -1)\<rparr> ShootingSystem_init))))
     = projectiles (snd (update_shots 1016 5 (\<lambda>t::nat. True) (\<lambda>t. (0, 0, 0)) []
       (snd (shoot 1000 \<lparr>cam_position = (0, 0, 5), cam_forward = (0, 0, -1)\<rparr> ShootingSystem_init))))"
proof -
  let ?C = "spawnWave_cyc 1 (\<lambda>row col. 0.5) (AlienGrid_cyc (\<lambda>r. createAlien 1 0) 0)"
  let ?B = "spawnWave_bnd 1 (\<lambda>row col. 0.5) (AlienGrid_bnd (\<lambda>r. createAlien 1 0) 0)"
  let ?S = "snd (shoot 1000 \<lparr>cam_position = (0, 0, 5), cam_forward = (0, 0, -1)\<rparr> ShootingSystem_init)"
  have c: "g_group ?C = Some (0, 0, 0) \<and> g_aliens ?C \<noteq> [] \<and> dropCount ?C < maxDrops ?C"
    by (simp add: spawn_cyc_fields AlienGrid_cyc_def)
  have b: "g_group ?B = Some (0, 0, 0) \<and> g_aliens ?B \<noteq> []"
    by (simp add: spawn_bnd_fields)
  have r: "needsToChangeDirection ?B"
    by (rule spawn_bnd_reverses)
  have v: "vx (0, 0, 0) + g_direction ?C * g_moveSpeed ?C = -0.02"
    "vadd (0, 0, 0) (0, - g_dropDistance ?B, 0) = (0, -0.3, 0)"
    by (simp_all add: spawn_cyc_fields spawn_bnd_fields AlienGrid_cyc_def AlienGrid_bnd_def
                      vadd_def vx_def vy_def vz_def)
  note m1 = motion_per_tick[of 1016 "0.016" "\<lambda>t::nat. True" "\<lambda>t. (0, 0, 0)" "[]" ?S 5
                             "hd (projectiles ?S)" ?C "(0, 0, 0)" ?B "(0, 0, 0)"]
  note m2 = motion_per_tick[of 1016 5 "\<lambda>t::nat. True" "\<lambda>t. (0, 0, 0)" "[]" ?S "0.016"
                             "hd (projectiles ?S)" ?C "(0, 0, 0)" ?B "(0, 0, 0)"]
  from m1 m2 c b r v show ?thesis by simp
qed

section \<open>Reversals\<close>


lemma fold_wiggle_offset:
  "a_wiggleOffset (g_objs (fold (wiggle_alien amp) xs g) r) = a_wiggleOffset (g_objs g r)"
  by (induction xs arbitrary: g) (simp_all add: wiggle_alien_def Let_def)

















section \<open>Speed within a wave\<close>

text \<open>
  C6 fails on the boundary-based variant.  A fresh grid spawns wave 1 and is updated
  twice; both updates are reversals (the outer columns stand at \<open>x = 6\<close> and \<open>x = -6\<close>,
  beyond the boundary 5), so the sweep speed is \<open>0.015 \<times> 1.02 \<times> 1.02 = 0.015606\<close>.
  Destroying the live alien 0 then returns its 30 points and sets the speed to
  \<open>baseSpeed \<times> speedMultiplier \<times> (1 + (55 - 54) \<times> 0.02) = 0.0153\<close>: the kill lowers
  the speed.
\<close>

theorem kill_lowers_speed:
  "g_moveSpeed (snd (update_bnd 0.016 (snd (update_bnd 0.016
       (spawnWave_bnd 1 (\<lambda>row col. 0.5) (AlienGrid_bnd (\<lambda>r. createAlien 1 0) 0)))))) = 0.015606
   \<and> a_isAlive (g_objs (snd (update_bnd 0.016 (snd (update_bnd 0.016
       (spawnWave_bnd 1 (\<lambda>row col. 0.5) (AlienGrid_bnd (\<lambda>r. createAlien 1 0) 0)))))) 0)
   \<and> destroyAlien 0 (snd (update_bnd 0.016 (snd (update_bnd 0.016
       (spawnWave_bnd 1 (\<lambda>row col. 0.5) (AlienGrid_bnd (\<lambda>r. createAlien 1 0) 0))))))
      = (30, (snd (destroyAlien 0 (snd (update_bnd 0.016 (snd (update_bnd 0.016
       (spawnWave_bnd 1 (\<lambda>row col. 0.5) (AlienGrid_bnd (\<lambda>r. createAlien 1 0) 0)))))))))
   \<and> g_moveSpeed (snd (destroyAlien 0 (snd (update_bnd 0.016 (snd (update_bnd 0.016
       (spawnWave_bnd 1 (\<lambda>row col. 0.5) (AlienGrid_bnd (\<lambda>r. createAlien 1 0) 0)))))))) = 0.0153
   \<and> g_moveSpeed (snd (destroyAlien 0 (snd (update_bnd 0.016 (snd (update_bnd 0.016
       (spawnWave_bnd 1 (\<lambda>row col. 0.5) (AlienGrid_bnd (\<lambda>r. createAlien 1 0) 0))))))))
     < g_moveSpeed (snd (update_bnd 0.016 (snd (update_bnd 0.016
       (spawnWave_bnd 1 (\<lambda>row col. 0.5) (AlienGrid_bnd (\<lambda>r. createAlien 1 0) 0))))))"
proof -
  let ?B = "spawnWave_bnd 1 (\<lambda>row col. 0.5) (AlienGrid_bnd (\<lambda>r. createAlien 1 0) 0)"
  let ?B1 = "snd (update_bnd 0.016 ?B)"
  let ?B2 = "snd (update_bnd 0.016 ?B1)"
  have g: "g_group ?B = Some (0, 0, 0)" "g_aliens ?B \<noteq> []"
    by (simp_all add: spawn_bnd_fields)
  have g1: "g_group ?B1 = Some (vadd (0, 0, 0) (0, - g_dropDistance ?B, 0))" "g_aliens ?B1 \<noteq> []"
    using update_bnd_reverse(3)[OF g spawn_bnd_reverses] g(2) by (simp_all add: update_bnd_keeps)
  have s0: "g_moveSpeed ?B = 0.015"
    by (simp add: spawn_bnd_fields AlienGrid_bnd_def)
  have s1: "g_moveSpeed ?B1 = 0.015 * 1.02"
    using update_bnd_reverse(2)[OF g spawn_bnd_reverses, where dt = "0.016"] s0 by simp
  have s2: "g_moveSpeed ?B2 = 0.015606"
    using update_bnd_reverse(2)[OF g1 spawn_bnd_reverses_again, where dt = "0.016"] s1 by simp
  have al: "getAliveAliens ?B2 = [0..<55]"
    by (simp add: getAliveAliens_spawn_bnd AlienGrid_bnd_def del: upt_Suc)
  have a0: "a_isAlive (g_objs ?B2 0)"
    by (simp add: update_bnd_keeps spawnWave_bnd_eq AlienGrid_bnd_def spawned_objs_alive
                  config_bnd_def)
  have p0: "a_points (g_objs ?B2 0) = 30"
    by (simp add: update_bnd_keeps spawnWave_bnd_eq AlienGrid_bnd_def spawned_objs_def
                  spawned_alien_def alienTypeOfRow_def config_bnd_def)
  have n: "length (filter (\<lambda>r. r \<noteq> 0) (getAliveAliens ?B2)) = 54"
    unfolding al by (subst length_filter_neq) simp_all
  have bm: "g_baseSpeed ?B2 = 0.015" "g_speedMultiplier ?B2 = 1"
    by (simp_all add: update_bnd_keeps spawn_bnd_fields AlienGrid_bnd_def)
  have s3: "g_moveSpeed (snd (destroyAlien 0 ?B2)) = 0.0153"
    by (simp only: destroyAlien_speed[OF a0] n bm) simp
  have r: "fst (destroyAlien 0 ?B2) = 30"
    using a0 p0 by (simp add: destroyAlien_def Let_def)
  have "destroyAlien 0 ?B2 = (30, snd (destroyAlien 0 ?B2))"
    using r by (metis prod.collapse)
  then show ?thesis
    using s2 s3 a0 by simp
qed

section \<open>Frames after a cleared wave\<close>

lemma hitGround_bnd_wiggleTime [simp]:
  "hitGround_bnd (g\<lparr>g_wiggleTime := t\<rparr>) = hitGround_bnd g"
  by (simp add: hitGround_bnd_iff getAliveAliens_def isAliveRef_def getWorldPosition_def
           cong: option.case_cong)

lemma fst_update_bnd:
  "fst (update_bnd dt g) = (g_group g \<noteq> None \<and> g_aliens g \<noteq> [] \<and> hitGround_bnd g)"
  by (simp add: update_bnd_def Let_def)

lemma fst_update_cyc:
  "fst (update_cyc dt g) = (g_group g \<noteq> None \<and> g_aliens g \<noteq> [] \<and> maxDrops g \<le> dropCount g)"
  by (simp add: update_cyc_def Let_def)

lemma fst_grid_update: "fst (grid_update dt G) = grid_hitsGround G"
  by (cases G) (simp_all add: fst_update_bnd fst_update_cyc case_prod_beta)

lemma cleared_no_ground_bnd: "isWaveCleared g \<Longrightarrow> \<not> hitGround_bnd g"
  by (simp add: isWaveCleared_def getAliveCount_def hitGround_bnd_iff)

lemma cleared_grid_update:
  "grid_isWaveCleared (snd (grid_update dt G)) = grid_isWaveCleared G"
  by (cases G) (simp_all add: isWaveCleared_def getAliveCount_def case_prod_beta)

lemma cleared_alive_nil: "grid_isWaveCleared G \<Longrightarrow> grid_getAliveAliens G = []"
  by (cases G) (simp_all add: isWaveCleared_def getAliveCount_def)

lemma hits_of_no_targets: "hits_of now alive wpos [] lifetime speed = (\<lambda>p. [])"
  by (rule ext) (simp add: hits_of_def)

lemma concat_map_nil: "concat (map (\<lambda>p. []) ps) = []"
  by (induction ps) simp_all

lemma update_shots_no_targets: "fst (update_shots now dt alive wpos [] s) = []"
  by (simp add: update_shots_char hits_of_no_targets concat_map_nil)

lemma gameLoop_cleared:
  assumes "isPlaying st" "grid_isWaveCleared (alienGridOf st)" "\<not> grid_hitsGround (alienGridOf st)"
  shows "wave (gameLoop now dt rnd st) = wave st + 1"
    and "isPlaying (gameLoop now dt rnd st)"
    and "alienGridOf (gameLoop now dt rnd st) = snd (grid_update dt (alienGridOf st))"
    and "spawnTimers (gameLoop now dt rnd st) = spawnTimers st @ [now + 1500]"
proof -
  obtain b G1 where u: "grid_update dt (alienGridOf st) = (b, G1)"
    by (cases "grid_update dt (alienGridOf st)")
  have b: "\<not> b" using fst_grid_update[of dt "alienGridOf st"] u assms(3) by simp
  have c: "grid_isWaveCleared G1"
    using cleared_grid_update[of dt "alienGridOf st"] u assms(2) by simp
  have a: "grid_getAliveAliens G1 = []" by (rule cleared_alive_nil[OF c])
  obtain hs sh where s: "update_shots now dt (grid_isAlive G1) (grid_worldPos G1) []
                            (shootingSystem st) = (hs, sh)"
    by (cases "update_shots now dt (grid_isAlive G1) (grid_worldPos G1) [] (shootingSystem st)")
  have h: "hs = []"
    using update_shots_no_targets[of now dt "grid_isAlive G1" "grid_worldPos G1" "shootingSystem st"] s
    by simp
  have e: "gameLoop now dt rnd st
           = onWaveComplete now (st\<lparr>alienGridOf := G1, shootingSystem := sh\<rparr>)"
    using assms(1) b c a s h by (simp add: gameLoop_def u Let_def)
  show "wave (gameLoop now dt rnd st) = wave st + 1"
    by (simp add: e onWaveComplete_def)
  show "isPlaying (gameLoop now dt rnd st)"
    using assms(1) by (simp add: e onWaveComplete_def)
  show "alienGridOf (gameLoop now dt rnd st) = snd (grid_update dt (alienGridOf st))"
    by (simp add: e onWaveComplete_def u)
  show "spawnTimers (gameLoop now dt rnd st) = spawnTimers st @ [now + 1500]"
    by (simp add: e onWaveComplete_def)
qed

lemma fold_onAlienHit:
  "isPlaying (fold (onAlienHit now) xs st) = isPlaying st"
  "wave (fold (onAlienHit now) xs st) = wave st"
  "spawnTimers (fold (onAlienHit now) xs st) = spawnTimers st"
  "alienGridOf (fold (onAlienHit now) xs st)
     = fold (\<lambda>a G. snd (grid_destroyAlien a G)) xs (alienGridOf st)"
  by (induction xs arbitrary: st; simp add: onAlienHit_def case_prod_beta)+

lemma fold_destroy_Cycle:
  "fold (\<lambda>a G. snd (grid_destroyAlien a G)) xs (Cycle g)
     = Cycle (fold (\<lambda>a g. snd (destroyAlien a g)) xs g)"
  by (induction xs arbitrary: g) (simp_all add: case_prod_beta)

lemma fold_destroy_Boundary:
  "fold (\<lambda>a G. snd (grid_destroyAlien a G)) xs (Boundary g)
     = Boundary (fold (\<lambda>a g. snd (destroyAlien a g)) xs g)"
  by (induction xs arbitrary: g) (simp_all add: case_prod_beta)

lemma startGame_fields:
  "isPlaying (startGame rnd st)"
  "wave (startGame rnd st) = 1"
  "spawnTimers (startGame rnd st) = spawnTimers st"
  "alienGridOf (startGame rnd st) = grid_spawnWave 1 rnd (alienGridOf st)"
  by (simp_all add: startGame_def gm_spawnWave_def)

lemma cleared_no_ground_Boundary:
  "isWaveCleared g \<Longrightarrow> \<not> grid_hitsGround (Boundary g)"
  "isWaveCleared g \<Longrightarrow> \<not> grid_hitsGround (snd (grid_update dt (Boundary g)))"
proof -
  assume c: "isWaveCleared g"
  show "\<not> grid_hitsGround (Boundary g)"
    using cleared_no_ground_bnd[OF c] by simp
  have "isWaveCleared (snd (update_bnd dt g))"
    using c by (simp add: isWaveCleared_def getAliveCount_def)
  then show "\<not> grid_hitsGround (snd (grid_update dt (Boundary g)))"
    using cleared_no_ground_bnd by (simp add: case_prod_beta)
qed

lemma few_drops_no_ground_Cycle:
  "Suc (dropCount g) < maxDrops g \<Longrightarrow> \<not> grid_hitsGround (Cycle g)"
  "Suc (dropCount g) < maxDrops g \<Longrightarrow> \<not> grid_hitsGround (snd (grid_update dt (Cycle g)))"
proof -
  assume d: "Suc (dropCount g) < maxDrops g"
  show "\<not> grid_hitsGround (Cycle g)"
    using d by simp
  have "dropCount (snd (update_cyc dt g)) < maxDrops (snd (update_cyc dt g))"
    using d dropCount_update_cyc[of dt g] by (simp add: update_cyc_keeps)
  then show "\<not> grid_hitsGround (snd (grid_update dt (Cycle g)))"
    by (simp add: case_prod_beta)
qed

lemma all_killed:
  "getAliveAliens (fold (\<lambda>a g. snd (destroyAlien a g)) [0..<55]
                     (spawnWave_cyc w rnd (AlienGrid_cyc objs 0))) = []"
  "getAliveAliens (fold (\<lambda>a g. snd (destroyAlien a g)) [0..<55]
                     (spawnWave_bnd w rnd (AlienGrid_bnd objs 0))) = []"
  by (simp_all add: fold_destroy_alive getAliveAliens_spawn_cyc getAliveAliens_spawn_bnd
                    AlienGrid_cyc_def AlienGrid_bnd_def del: upt_Suc)

lemma two_frames:
  assumes "isPlaying st" "grid_isWaveCleared (alienGridOf st)"
    "\<not> grid_hitsGround (alienGridOf st)"
    "\<not> grid_hitsGround (snd (grid_update dt (alienGridOf st)))"
  shows "wave (gameLoop now dt rnd st) = wave st + 1"
    and "wave (gameLoop now' dt' rnd' (gameLoop now dt rnd st)) = wave st + 2"
    and "spawnTimers (gameLoop now' dt' rnd' (gameLoop now dt rnd st))
           = spawnTimers st @ [now + 1500, now' + 1500]"
    and "isPlaying (gameLoop now' dt' rnd' (gameLoop now dt rnd st))"
proof -
  note f = gameLoop_cleared[OF assms(1,2,3), of now dt rnd]
  have c: "grid_isWaveCleared (alienGridOf (gameLoop now dt rnd st))"
    using assms(2) by (simp add: f(3) cleared_grid_update)
  have g: "\<not> grid_hitsGround (alienGridOf (gameLoop now dt rnd st))"
    using assms(4) by (simp add: f(3))
  note s = gameLoop_cleared[OF f(2) c g, of now' dt' rnd']
  show "wave (gameLoop now dt rnd st) = wave st + 1" by (rule f(1))
  show "wave (gameLoop now' dt' rnd' (gameLoop now dt rnd st)) = wave st + 2"
    by (simp add: s(1) f(1))
  show "spawnTimers (gameLoop now' dt' rnd' (gameLoop now dt rnd st))
           = spawnTimers st @ [now + 1500, now' + 1500]"
    by (simp add: s(4) f(4))
  show "isPlaying (gameLoop now' dt' rnd' (gameLoop now dt rnd st))"
    by (rule s(2))
qed

lemma first_timer_spawns:
  assumes "spawnTimers st = [t1, t2]" "t1 \<le> now" "now < t2" "isPlaying st"
  shows "currentWave (hudOf (fire_timers now rnd st)) = wave st"
  using assms
  by (simp add: fire_timers_def gm_spawnWave_def setWave_def)

text \<open>
  C2 fails on the code.  A game is started, wave 1 is spawned and all 55 aliens are
  destroyed; the wave number is 1 and the wave is cleared.  The frame at 1016 finds the
  wave cleared and raises the wave number to 2, as the claim says.  The frame at 1032,
  before the spawn timer set for 2516 has run, finds the same wave still cleared and
  raises the wave number again, to 3, and sets a second spawn timer.  The formation
  the first timer then spawns is announced as wave 3.  This holds with either variant
  of the grid.
\<close>

theorem cleared_wave_counted_every_frame:
  "wave (fold (onAlienHit 1000) [0..<55]
           (startGame (\<lambda>row col. 0.5) (GameManager_init (Cycle (AlienGrid_cyc (\<lambda>r. createAlien 1 0) 0))))) = 1
   \<and> grid_isWaveCleared (alienGridOf (fold (onAlienHit 1000) [0..<55]
           (startGame (\<lambda>row col. 0.5) (GameManager_init (Cycle (AlienGrid_cyc (\<lambda>r. createAlien 1 0) 0))))))
   \<and> wave (gameLoop 1016 0.016 (\<lambda>row col. 0.5) (fold (onAlienHit 1000) [0..<55]
           (startGame (\<lambda>row col. 0.5) (GameManager_init (Cycle (AlienGrid_cyc (\<lambda>r. createAlien 1 0) 0)))))) = 2
   \<and> wave (gameLoop 1032 0.016 (\<lambda>row col. 0.5) (gameLoop 1016 0.016 (\<lambda>row col. 0.5)
           (fold (onAlienHit 1000) [0..<55]
           (startGame (\<lambda>row col. 0.5) (GameManager_init (Cycle (AlienGrid_cyc (\<lambda>r. createAlien 1 0) 0))))))) = 3
   \<and> spawnTimers (gameLoop 1032 0.016 (\<lambda>row col. 0.5) (gameLoop 1016 0.016 (\<lambda>row col. 0.5)
           (fold (onAlienHit 1000) [0..<55]
           (startGame (\<lambda>row col. 0.5) (GameManager_init (Cycle (AlienGrid_cyc (\<lambda>r. createAlien 1 0) 0)))))))
       = [2516, 2532]
   \<and> currentWave (hudOf (fire_timers 2516 (\<lambda>row col. 0.5)
         (gameLoop 1032 0.016 (\<lambda>row col. 0.5) (gameLoop 1016 0.016 (\<lambda>row col. 0.5)
           (fold (onAlienHit 1000) [0..<55]
           (startGame (\<lambda>row col. 0.5) (GameManager_init (Cycle (AlienGrid_cyc (\<lambda>r. createAlien 1 0) 0))))))))) = 3
   \<and> wave (gameLoop 1032 0.016 (\<lambda>row col. 0.5) (gameLoop 1016 0.016 (\<lambda>row col. 0.5)
           (fold (onAlienHit 1000) [0..<55]
           (startGame (\<lambda>row col. 0.5) (GameManager_init (Boundary (AlienGrid_bnd (\<lambda>r. createAlien 1 0) 0))))))) = 3"
proof -
  let ?rnd = "\<lambda>(row::nat) (col::nat). 0.5::real"
  let ?Sc = "fold (onAlienHit 1000) [0..<55]
           (startGame ?rnd (GameManager_init (Cycle (AlienGrid_cyc (\<lambda>r. createAlien 1 0) 0))))"
  let ?Sb = "fold (onAlienHit 1000) [0..<55]
           (startGame ?rnd (GameManager_init (Boundary (AlienGrid_bnd (\<lambda>r. createAlien 1 0) 0))))"
  let ?Kc = "fold (\<lambda>a g. snd (destroyAlien a g)) [0..<55]
               (spawnWave_cyc 1 ?rnd (AlienGrid_cyc (\<lambda>r. createAlien 1 0) 0))"
  let ?Kb = "fold (\<lambda>a g. snd (destroyAlien a g)) [0..<55]
               (spawnWave_bnd 1 ?rnd (AlienGrid_bnd (\<lambda>r. createAlien 1 0) 0))"
  have gc: "alienGridOf ?Sc = Cycle ?Kc"
    unfolding fold_onAlienHit startGame_fields
    by (simp add: GameManager_init_def fold_destroy_Cycle del: upt_Suc)
  have gb: "alienGridOf ?Sb = Boundary ?Kb"
    unfolding fold_onAlienHit startGame_fields
    by (simp add: GameManager_init_def fold_destroy_Boundary del: upt_Suc)
  have pc: "isPlaying ?Sc" and wc: "wave ?Sc = 1"
    unfolding fold_onAlienHit by (simp_all add: startGame_fields)
  have tc: "spawnTimers ?Sc = []"
    unfolding fold_onAlienHit startGame_fields by (simp add: GameManager_init_def)
  have pb: "isPlaying ?Sb" and wb: "wave ?Sb = 1"
    unfolding fold_onAlienHit by (simp_all add: startGame_fields)
  have cc: "grid_isWaveCleared (alienGridOf ?Sc)"
    unfolding gc by (simp add: isWaveCleared_def getAliveCount_def all_killed del: upt_Suc)
  have cb: "isWaveCleared ?Kb"
    by (simp add: isWaveCleared_def getAliveCount_def all_killed del: upt_Suc)
  have cb': "grid_isWaveCleared (alienGridOf ?Sb)"
    unfolding gb using cb by simp
  have dc: "Suc (dropCount ?Kc) < maxDrops ?Kc"
    unfolding fold_destroy_ext spawn_cyc_fields by (simp add: AlienGrid_cyc_def)
  have nc: "\<not> grid_hitsGround (alienGridOf ?Sc)"
    "\<not> grid_hitsGround (snd (grid_update 0.016 (alienGridOf ?Sc)))"
    unfolding gc by (rule few_drops_no_ground_Cycle[OF dc])+
  have nb: "\<not> grid_hitsGround (alienGridOf ?Sb)"
    "\<not> grid_hitsGround (snd (grid_update 0.016 (alienGridOf ?Sb)))"
    unfolding gb by (rule cleared_no_ground_Boundary[OF cb])+
  note c1 = two_frames(1)[OF pc cc nc, where now = 1016 and rnd = ?rnd]
  note c2 = two_frames(2,3,4)[OF pc cc nc, where now = 1016 and rnd = ?rnd and now' = 1032
                              and dt' = "0.016" and rnd' = ?rnd]
  have ts: "spawnTimers (gameLoop 1032 0.016 ?rnd (gameLoop 1016 0.016 ?rnd ?Sc)) = [2516, 2532]"
    unfolding c2 tc by simp
  have le: "(2516::int) \<le> 2516" "(2516::int) < 2532" by simp_all
  note c3 = first_timer_spawns[OF ts le c2(3), of ?rnd]
  note b2 = two_frames(2)[OF pb cb' nb, where now = 1016 and rnd = ?rnd and now' = 1032
                            and dt' = "0.016" and rnd' = ?rnd]
  show ?thesis
    unfolding c3 c1 c2 b2 wc wb tc using cc by simp
qed

end
